theory Spec2Isabelle
  imports Complex_Main "HOL-Library.Multiset"
begin

section \<open>Map drawing of \<^verbatim>\<open>map_machine/mapper.py\<close>\<close>

text \<open>
  The class \<^verbatim>\<open>Map\<close> of \<^verbatim>\<open>mapper.py\<close> draws the entities a \<^verbatim>\<open>Constructor\<close> holds
  into an SVG drawing. Its three methods \<^verbatim>\<open>draw\<close>, \<^verbatim>\<open>draw_buildings\<close> and
  \<^verbatim>\<open>draw_roads\<close> decide nothing but which calls are made on the drawing and on the
  entities, with which arguments and in which order. The model therefore records the
  drawing as the list of these calls, oldest first: every \<^verbatim>\<open>self.svg.add(...)\<close> and every
  \<^verbatim>\<open>x.draw...(self.svg, ...)\<close> appends one call. The arguments \<^verbatim>\<open>self.svg\<close>,
  \<^verbatim>\<open>self.flinger\<close> and \<^verbatim>\<open>self.scheme\<close> are the same objects in every call of one
  \<^verbatim>\<open>Map\<close> and are not recorded. The calls of \<^verbatim>\<open>progress_bar\<close> write to the console,
  not to the drawing, and are left out.

  Python floats are modelled as reals (no NaN, no rounding), Python lists as lists.
\<close>

subsection \<open>The data the methods read\<close>

text \<open>The classes of the entities are declared in other modules of the repository; the
  records below hold the attributes that \<^verbatim>\<open>mapper.py\<close> reads, under the names it reads
  them by. Two names are changed: \<^verbatim>\<open>flinger.size\<close> is \<open>flinger_size\<close>, and the priority
  of a point is \<open>point_priority\<close>, since \<open>priority\<close> is the priority of a line style.
  The keys of a dictionary are compared as the records are: two nodes are the same key
  when their attributes agree.\<close>

type_synonym Color = string

text \<open>\<^verbatim>\<open>Flinger\<close>: the canvas size, the projection \<^verbatim>\<open>fling\<close> and \<^verbatim>\<open>get_scale\<close>, whose
  argument is optional in the source (\<^verbatim>\<open>get_scale()\<close> and \<^verbatim>\<open>get_scale(coordinates)\<close>).\<close>

record Flinger =
  flinger_size :: "real \<times> real"
  fling :: "real \<times> real \<Rightarrow> real \<times> real"
  get_scale :: "(real \<times> real) option \<Rightarrow> real"

record Scheme =
  get_color :: "string \<Rightarrow> Color"

text \<open>Modelled from the spec: \<^verbatim>\<open>LabelMode\<close> (\<^verbatim>\<open>map_configuration.py\<close>) and \<^verbatim>\<open>BuildingMode\<close>
  (\<^verbatim>\<open>ui.py\<close>) are declared outside \<^verbatim>\<open>mapper.py\<close>. The source names \<^verbatim>\<open>LabelMode.NO\<close> and
  \<^verbatim>\<open>BuildingMode.FLAT\<close>; the spec lists the label modes off / all / only-when-space and
  the building modes flat / extruded. A building mode that is neither is \<open>OTHER_MODE\<close>
  with the text the configuration carries.\<close>

datatype LabelMode = NO | LABELS_ALL | LABELS_WHEN_SPACE

datatype BuildingMode = FLAT | EXTRUDED | OTHER_MODE string

record MapConfiguration =
  is_wireframe :: bool
  label_mode :: LabelMode
  building_mode :: BuildingMode
  overlap :: real

record LineStyle =
  style :: "(string \<times> string) list"
  priority :: real

record StyledFigure =
  line_style :: LineStyle
  get_path :: "Flinger \<Rightarrow> string"

record OSMNode =
  id_ :: int
  coordinates :: "real \<times> real"

record RoadMatcher =
  border_color :: Color
  color :: Color

record Road =
  outers :: "OSMNode list list"
  inners :: "OSMNode list list"
  lanes :: nat
  layer :: real
  matcher :: RoadMatcher

record Building =
  polygon :: "OSMNode list"
  height :: real
  min_height :: real

datatype Tree = Tree "real \<times> real"

datatype Crater = Crater "real \<times> real"

datatype DirectionSector = DirectionSector "real \<times> real" string

record Point =
  point_position :: "real \<times> real"
  point_priority :: real
  label :: string

text \<open>\<^verbatim>\<open>Constructor\<close>. Its \<^verbatim>\<open>heights\<close> is a Python set of floats: the list holds its
  members, each once, in the order the set iterates over them.\<close>

record Constructor =
  figures :: "StyledFigure list"
  roads :: "Road list"
  trees :: "Tree list"
  craters :: "Crater list"
  direction_sectors :: "DirectionSector list"
  buildings :: "Building list"
  heights :: "real list"
  points :: "Point list"

text \<open>\<^verbatim>\<open>Occupied(width, height, overlap)\<close>.\<close>

datatype Occupied = Occupied real real real

text \<open>\<^verbatim>\<open>RoadPart(point_1, point_2, lanes, scale)\<close>. The class defines no equality of its
  own, so a Python set holds road parts by object identity: \<open>part_id\<close> is the identity
  of the object, given out by a counter at construction.\<close>

record RoadPart =
  part_id :: nat
  point_1 :: "real \<times> real"
  point_2 :: "real \<times> real"
  part_lanes :: nat
  part_scale :: real

subsection \<open>The calls on the drawing\<close>

datatype draw_call =
    SvgAddRect "real \<times> real" "real \<times> real" Color
      \<comment> \<open>\<^verbatim>\<open>svg.add(Rect(insert, size, fill=color))\<close>\<close>
  | SvgAddPath string "(string \<times> string) list"
      \<comment> \<open>\<^verbatim>\<open>svg.add(path)\<close> for \<^verbatim>\<open>SVGPath(d=path_commands)\<close> updated with the style\<close>
  | RoadDraw Road Color "real option"
      \<comment> \<open>\<^verbatim>\<open>road.draw(svg, flinger, color)\<close>, \<^verbatim>\<open>road.draw(svg, flinger, color, 2)\<close>\<close>
  | TreeDraw Tree
  | CraterDraw Crater
  | DirectionSectorDraw DirectionSector
  | BuildingDraw Building
  | SvgAddGroup real "Building list"
      \<comment> \<open>\<^verbatim>\<open>svg.add(group)\<close> for \<^verbatim>\<open>Group(opacity)\<close> into which \<^verbatim>\<open>draw_shade\<close> of the
         listed buildings drew, in this order\<close>
  | DrawWalls Building real real real
      \<comment> \<open>\<^verbatim>\<open>building.draw_walls(svg, height, previous_height, scale)\<close>\<close>
  | DrawRoof Building real
      \<comment> \<open>\<^verbatim>\<open>building.draw_roof(svg, flinger, scale)\<close>\<close>
  | DrawMainShapes Point "Occupied option"
  | DrawExtraShapes Point "Occupied option"
  | DrawTexts Point "Occupied option" LabelMode
  | IntersectionDraw "RoadPart list" bool
      \<comment> \<open>\<^verbatim>\<open>Intersection(parts).draw(svg, True)\<close>\<close>

datatype error = IndexError | KeyError

subsection \<open>\<^verbatim>\<open>Map.__init__\<close>\<close>

record Map =
  flinger :: Flinger
  scheme :: Scheme
  configuration :: MapConfiguration
  background_color :: Color

definition Map_init :: "Flinger \<Rightarrow> Scheme \<Rightarrow> MapConfiguration \<Rightarrow> Map" where
  "Map_init fl sch cfg =
     \<lparr>flinger = fl, scheme = sch, configuration = cfg,
      background_color =
        (if is_wireframe cfg then ''#111111'' else get_color sch ''background_color'')\<rparr>"

subsection \<open>\<^verbatim>\<open>Map.draw\<close>: the figures\<close>

text \<open>The loop over \<^verbatim>\<open>ways\<close>: a figure whose path commands are the empty string adds
  nothing.\<close>

fun draw_ways :: "Map \<Rightarrow> StyledFigure list \<Rightarrow> draw_call list \<Rightarrow> draw_call list" where
  "draw_ways M [] svg = svg"
| "draw_ways M (way # ways) svg =
     (let path_commands = get_path way (flinger M) in
      if path_commands \<noteq> []
      then draw_ways M ways (svg @ [SvgAddPath path_commands (style (line_style way))])
      else draw_ways M ways svg)"


subsection \<open>Loops and dictionaries\<close>

text \<open>\<^verbatim>\<open>for x in xs: body\<close>, threading the state the body changes.\<close>

fun for_loop :: "('a \<Rightarrow> 's \<Rightarrow> 's) \<Rightarrow> 'a list \<Rightarrow> 's \<Rightarrow> 's" where
  "for_loop body [] s = s"
| "for_loop body (x # xs) s = for_loop body xs (body x s)"

text \<open>A Python dictionary keeps its keys in the order of their first insertion: the
  list of its items in that order. \<open>dict_setdefault\<close> is
  \<^verbatim>\<open>if k not in d: d[k] = v\<close>; \<open>dict_modify k f\<close> changes the value stored under \<open>k\<close> in
  place (\<^verbatim>\<open>d[k].append(x)\<close>, \<^verbatim>\<open>d[k].add(x)\<close>); \<open>dict_get\<close> is \<^verbatim>\<open>d[k]\<close>, a \<^verbatim>\<open>KeyError\<close>
  when the key is missing.\<close>

definition dict_setdefault :: "'k \<Rightarrow> 'v \<Rightarrow> ('k \<times> 'v) list \<Rightarrow> ('k \<times> 'v) list" where
  "dict_setdefault k v d = (if map_of d k = None then d @ [(k, v)] else d)"

fun dict_modify :: "'k \<Rightarrow> ('v \<Rightarrow> 'v) \<Rightarrow> ('k \<times> 'v) list \<Rightarrow> ('k \<times> 'v) list" where
  "dict_modify k f [] = []"
| "dict_modify k f (item # d) =
     (if fst item = k then (k, f (snd item)) # d else item # dict_modify k f d)"

definition dict_get :: "('k \<times> 'v) list \<Rightarrow> 'k \<Rightarrow> error + 'v" where
  "dict_get d k = (case map_of d k of None \<Rightarrow> Inl KeyError | Some v \<Rightarrow> Inr v)"

subsection \<open>\<^verbatim>\<open>Map.draw\<close>: the roads, layer by layer\<close>

definition group_roads :: "Road list \<Rightarrow> (real \<times> Road list) list" where
  "group_roads rs =
     for_loop (\<lambda>road layered_roads.
         dict_modify (layer road) (\<lambda>l. l @ [road])
           (dict_setdefault (layer road) [] layered_roads))
       rs []"

definition border_call :: "Road \<Rightarrow> draw_call" where
  "border_call road = RoadDraw road (border_color (matcher road)) (Some 2)"

definition fill_call :: "Road \<Rightarrow> draw_call" where
  "fill_call road = RoadDraw road (color (matcher road)) None"

text \<open>The loop over \<^verbatim>\<open>sorted(layered_roads.keys())\<close>.\<close>

fun draw_layers ::
  "(real \<times> Road list) list \<Rightarrow> real list \<Rightarrow> draw_call list \<Rightarrow> error + draw_call list" where
  "draw_layers layered_roads [] svg = Inr svg"
| "draw_layers layered_roads (l # ls) svg =
     (case dict_get layered_roads l of
        Inl e \<Rightarrow> Inl e
      | Inr rs \<Rightarrow>
          draw_layers layered_roads ls
            (for_loop (\<lambda>road svg. svg @ [fill_call road]) rs
              (for_loop (\<lambda>road svg. svg @ [border_call road]) rs svg)))"

subsection \<open>\<^verbatim>\<open>Map.draw_buildings\<close>\<close>

text \<open>The body of the loop over \<^verbatim>\<open>sorted(constructor.heights)\<close>: the state is the
  drawing and \<^verbatim>\<open>previous_height\<close>.\<close>

definition draw_band ::
  "Building list \<Rightarrow> real \<Rightarrow> real \<Rightarrow> draw_call list \<times> real \<Rightarrow> draw_call list \<times> real" where
  "draw_band bs scale h st =
     (let svg = fst st; previous_height = snd st;
          svg = for_loop (\<lambda>building svg.
                   if height building < h \<or> min_height building > h then svg
                   else svg @ [DrawWalls building h previous_height scale]) bs svg;
          svg = for_loop (\<lambda>building svg.
                   if height building = h then svg @ [DrawRoof building scale]
                   else svg) bs svg
      in (svg, h))"

definition draw_buildings :: "Map \<Rightarrow> Constructor \<Rightarrow> draw_call list \<Rightarrow> draw_call list" where
  "draw_buildings M c svg =
     (if building_mode (configuration M) = FLAT
      then for_loop (\<lambda>building svg. svg @ [BuildingDraw building]) (buildings c) svg
      else
        let scale = get_scale (flinger M) None / 3;
            building_shade = for_loop (\<lambda>building group. group @ [building]) (buildings c) [];
            svg = svg @ [SvgAddGroup (1 / 10) building_shade]
        in fst (for_loop (draw_band (buildings c) scale) (sort (heights c)) (svg, 0)))"

subsection \<open>\<^verbatim>\<open>Map.draw\<close>\<close>

definition make_occupied :: "Map \<Rightarrow> Occupied option" where
  "make_occupied M =
     (if overlap (configuration M) = 0 then None
      else Some (Occupied (fst (flinger_size (flinger M))) (snd (flinger_size (flinger M)))
                   (overlap (configuration M))))"

definition draw_points :: "Map \<Rightarrow> Constructor \<Rightarrow> draw_call list \<Rightarrow> draw_call list" where
  "draw_points M c svg =
     (let occupied = make_occupied M;
          nodes = sort_key (\<lambda>x. - point_priority x) (points c);
          svg = for_loop (\<lambda>node svg. svg @ [DrawMainShapes node occupied]) nodes svg;
          svg = for_loop (\<lambda>point svg. svg @ [DrawExtraShapes point occupied]) nodes svg
      in for_loop (\<lambda>point svg.
            if \<not> is_wireframe (configuration M) \<and> label_mode (configuration M) \<noteq> NO
            then svg @ [DrawTexts point occupied (label_mode (configuration M))]
            else svg) nodes svg)"

definition draw :: "Map \<Rightarrow> Constructor \<Rightarrow> error + draw_call list" where
  "draw M c =
     (let svg = [SvgAddRect (0, 0) (flinger_size (flinger M)) (background_color M)];
          ways = sort_key (\<lambda>x. priority (line_style x)) (figures c);
          svg = draw_ways M ways svg;
          layered_roads = group_roads (roads c)
      in case draw_layers layered_roads (sort (map fst layered_roads)) svg of
           Inl e \<Rightarrow> Inl e
         | Inr svg \<Rightarrow>
             (let svg = for_loop (\<lambda>tree svg. svg @ [TreeDraw tree]) (trees c) svg;
                  svg = for_loop (\<lambda>tree svg. svg @ [CraterDraw tree]) (craters c) svg;
                  svg = for_loop (\<lambda>direction_sector svg.
                           svg @ [DirectionSectorDraw direction_sector])
                          (direction_sectors c) svg;
                  svg = draw_buildings M c svg
              in Inr (draw_points M c svg)))"

subsection \<open>\<^verbatim>\<open>Map.draw_roads\<close>\<close>

text \<open>A Python set of road parts: the list of its members, each once. \<^verbatim>\<open>parts.add(x)\<close>
  adds \<open>x\<close> unless the set holds it already; \<^verbatim>\<open>len(parts)\<close> is the length.\<close>

definition set_add :: "'a \<Rightarrow> 'a list \<Rightarrow> 'a list" where
  "set_add x s = (if x \<in> set s then s else s @ [x])"

text \<open>The state of the first loop: the dictionary \<^verbatim>\<open>nodes\<close> and the identity the next
  constructed object gets.\<close>

record parts_state =
  nodes :: "(OSMNode \<times> RoadPart list) list"
  next_id :: nat

text \<open>The body of \<^verbatim>\<open>for index in range(len(road.outers[0]) - 1)\<close>, for the ring
  \<^verbatim>\<open>road.outers[0]\<close>.\<close>

definition add_segment :: "Map \<Rightarrow> Road \<Rightarrow> OSMNode list \<Rightarrow> nat \<Rightarrow> parts_state \<Rightarrow> parts_state" where
  "add_segment M road ring index st =
     (let node_1 = ring ! index;
          node_2 = ring ! (index + 1);
          p_1 = fling (flinger M) (coordinates node_1);
          p_2 = fling (flinger M) (coordinates node_2);
          scale = get_scale (flinger M) (Some (coordinates node_1));
          part_1 = \<lparr>part_id = next_id st, point_1 = p_1, point_2 = p_2,
                    part_lanes = lanes road, part_scale = scale\<rparr>;
          part_2 = \<lparr>part_id = next_id st + 1, point_1 = p_2, point_2 = p_1,
                    part_lanes = lanes road, part_scale = scale\<rparr>;
          ns = for_loop (\<lambda>node ns. dict_setdefault node [] ns) [node_1, node_2] (nodes st);
          ns = dict_modify node_1 (set_add part_1) ns;
          ns = dict_modify node_2 (set_add part_2) ns
      in \<lparr>nodes = ns, next_id = next_id st + 2\<rparr>)"

text \<open>The loop over the roads. \<^verbatim>\<open>road.outers[0]\<close> raises \<^verbatim>\<open>IndexError\<close> for a road with
  no outer ring. \<^verbatim>\<open>range(len(ring) - 1)\<close> is empty for an empty ring, as \<open>[0..<0 - 1]\<close>
  is.\<close>

fun collect_parts :: "Map \<Rightarrow> Road list \<Rightarrow> parts_state \<Rightarrow> error + parts_state" where
  "collect_parts M [] st = Inr st"
| "collect_parts M (road # rs) st =
     (case outers road of
        [] \<Rightarrow> Inl IndexError
      | ring # _ \<Rightarrow>
          collect_parts M rs (for_loop (add_segment M road ring) [0..<length ring - 1] st))"

text \<open>The loop \<^verbatim>\<open>for node in nodes\<close>. \<^verbatim>\<open>list(parts)\<close> lists the members of the set in the
  order of its hash table, which the addresses of the objects decide and the inputs of
  \<^verbatim>\<open>draw_roads\<close> do not: the order is the parameter \<open>set_order\<close>, a function from the set
  to the list handed to \<^verbatim>\<open>Intersection\<close>.\<close>

fun draw_intersections ::
  "(RoadPart list \<Rightarrow> RoadPart list) \<Rightarrow> (OSMNode \<times> RoadPart list) list \<Rightarrow> OSMNode list \<Rightarrow>
     draw_call list \<Rightarrow> error + draw_call list" where
  "draw_intersections set_order ns [] svg = Inr svg"
| "draw_intersections set_order ns (node # keys) svg =
     (case dict_get ns node of
        Inl e \<Rightarrow> Inl e
      | Inr parts \<Rightarrow>
          if length parts < 4 then draw_intersections set_order ns keys svg
          else draw_intersections set_order ns keys
                 (svg @ [IntersectionDraw (set_order parts) True]))"

definition initial_parts :: parts_state where
  "initial_parts = \<lparr>nodes = [], next_id = 0\<rparr>"

definition draw_roads ::
  "(RoadPart list \<Rightarrow> RoadPart list) \<Rightarrow> Map \<Rightarrow> Road list \<Rightarrow> error + draw_call list" where
  "draw_roads set_order M rs =
     (case collect_parts M rs initial_parts of
        Inl e \<Rightarrow> Inl e
      | Inr st \<Rightarrow> draw_intersections set_order (nodes st) (map fst (nodes st)) [])"

section \<open>The calls of each stage\<close>

text \<open>The lists below are not part of the program: they name, stage by stage, the calls
  that the loops of \<^verbatim>\<open>draw\<close> and \<^verbatim>\<open>draw_buildings\<close> are proved to append, so that the
  theorems can speak about them.\<close>

text \<open>The calls for the roads of one layer: all borders, then all fills, each in the
  order of \<^verbatim>\<open>constructor.roads\<close>.\<close>

definition layer_calls :: "Road list \<Rightarrow> real \<Rightarrow> draw_call list" where
  "layer_calls rs l =
     map border_call (filter (\<lambda>r. layer r = l) rs) @
     map fill_call (filter (\<lambda>r. layer r = l) rs)"

text \<open>The calls of one pass of the loop over the heights, for the pair
  (\<open>previous_height\<close>, \<open>h\<close>): the walls, then the roofs.\<close>

definition band_calls :: "Building list \<Rightarrow> real \<Rightarrow> real \<times> real \<Rightarrow> draw_call list" where
  "band_calls bs scale ph =
     map (\<lambda>b. DrawWalls b (snd ph) (fst ph) scale)
       (filter (\<lambda>b. min_height b \<le> snd ph \<and> snd ph \<le> height b) bs) @
     map (\<lambda>b. DrawRoof b scale) (filter (\<lambda>b. height b = snd ph) bs)"

text \<open>The calls of the five stages of \<^verbatim>\<open>draw\<close> that loop over sorted or grouped
  data.\<close>

definition figure_calls :: "Map \<Rightarrow> Constructor \<Rightarrow> draw_call list" where
  "figure_calls M c =
     map (\<lambda>way. SvgAddPath (get_path way (flinger M)) (style (line_style way)))
       (filter (\<lambda>way. get_path way (flinger M) \<noteq> [])
         (sort_key (\<lambda>x. priority (line_style x)) (figures c)))"

definition road_calls :: "Road list \<Rightarrow> draw_call list" where
  "road_calls rs = concat (map (layer_calls rs) (sorted_list_of_set (layer ` set rs)))"

definition building_calls :: "Map \<Rightarrow> Constructor \<Rightarrow> draw_call list" where
  "building_calls M c =
     (if building_mode (configuration M) = FLAT then map BuildingDraw (buildings c)
      else SvgAddGroup (1 / 10) (buildings c) #
           concat (map (band_calls (buildings c) (get_scale (flinger M) None / 3))
                    (zip (0 # sort (heights c)) (sort (heights c)))))"

definition point_calls :: "Map \<Rightarrow> Constructor \<Rightarrow> draw_call list" where
  "point_calls M c =
     (let occupied = make_occupied M;
          nodes = sort_key (\<lambda>x. - point_priority x) (points c)
      in map (\<lambda>p. DrawMainShapes p occupied) nodes @
         map (\<lambda>p. DrawExtraShapes p occupied) nodes @
         (if \<not> is_wireframe (configuration M) \<and> label_mode (configuration M) \<noteq> NO
          then map (\<lambda>p. DrawTexts p occupied (label_mode (configuration M))) nodes
          else []))"

text \<open>The order the road calls of \<^verbatim>\<open>draw\<close> are proved to keep (not part of the program):
  of two road calls, the earlier has the lower layer, or the same layer and then no
  fill call (no extra width) comes before a border call (extra width 2).\<close>

fun road_order :: "draw_call \<Rightarrow> draw_call \<Rightarrow> bool" where
  "road_order (RoadDraw ri ci xi) (RoadDraw rj cj xj) =
     (layer ri < layer rj \<or> (layer ri = layer rj \<and> (xi = None \<longrightarrow> xj = None)))"
| "road_order _ _ = True"

text \<open>Notions for the statements about \<^verbatim>\<open>draw_roads\<close> (not part of the program).
  \<open>parts_of ns n\<close> is the set stored under the node \<open>n\<close>, empty when the dictionary has
  no such key.\<close>

definition parts_of :: "(OSMNode \<times> RoadPart list) list \<Rightarrow> OSMNode \<Rightarrow> RoadPart list" where
  "parts_of ns n = (case map_of ns n of None \<Rightarrow> [] | Some ps \<Rightarrow> ps)"

text \<open>The states the first loop of \<^verbatim>\<open>draw_roads\<close> runs through: the keys of the
  dictionary are distinct, and every stored road part was constructed before the next
  identity to be given out.\<close>

definition parts_state_ok :: "parts_state \<Rightarrow> bool" where
  "parts_state_ok st \<longleftrightarrow>
     distinct (map fst (nodes st)) \<and>
     (\<forall>item \<in> set (nodes st). \<forall>p \<in> set (snd item). part_id p < next_id st)"

text \<open>Every stored road part starts at the projection of the node it is stored
  under.\<close>

definition parts_directed :: "Map \<Rightarrow> parts_state \<Rightarrow> bool" where
  "parts_directed M st \<longleftrightarrow>
     (\<forall>item \<in> set (nodes st). \<forall>p \<in> set (snd item).
        point_1 p = fling (flinger M) (coordinates (fst item)))"

text \<open>The two road parts the body of the inner loop constructs.\<close>

definition new_part_1 :: "Map \<Rightarrow> Road \<Rightarrow> OSMNode list \<Rightarrow> nat \<Rightarrow> parts_state \<Rightarrow> RoadPart" where
  "new_part_1 M road ring index st =
     \<lparr>part_id = next_id st,
      point_1 = fling (flinger M) (coordinates (ring ! index)),
      point_2 = fling (flinger M) (coordinates (ring ! (index + 1))),
      part_lanes = lanes road,
      part_scale = get_scale (flinger M) (Some (coordinates (ring ! index)))\<rparr>"

definition new_part_2 :: "Map \<Rightarrow> Road \<Rightarrow> OSMNode list \<Rightarrow> nat \<Rightarrow> parts_state \<Rightarrow> RoadPart" where
  "new_part_2 M road ring index st =
     \<lparr>part_id = next_id st + 1,
      point_1 = fling (flinger M) (coordinates (ring ! (index + 1))),
      point_2 = fling (flinger M) (coordinates (ring ! index)),
      part_lanes = lanes road,
      part_scale = get_scale (flinger M) (Some (coordinates (ring ! index)))\<rparr>"

text \<open>The number of segments of \<^verbatim>\<open>road.outers[0]\<close>, and the number of their ends that
  are the node \<open>n\<close>: the segment with index \<open>i\<close> runs from \<open>ring ! i\<close> to
  \<open>ring ! (i + 1)\<close>.\<close>

definition road_segments :: "Road \<Rightarrow> nat" where
  "road_segments road = (case outers road of [] \<Rightarrow> 0 | ring # _ \<Rightarrow> length ring - 1)"

definition segment_ends :: "Road \<Rightarrow> OSMNode \<Rightarrow> nat" where
  "segment_ends road n =
     (case outers road of
        [] \<Rightarrow> 0
      | ring # _ \<Rightarrow>
          length (filter (\<lambda>index. ring ! index = n) [0..<length ring - 1]) +
          length (filter (\<lambda>index. ring ! (index + 1) = n) [0..<length ring - 1]))"

section \<open>Concrete inputs\<close>

text \<open>Small inputs on which the theorems are evaluated.\<close>

definition example_flinger :: Flinger where
  "example_flinger = \<lparr>flinger_size = (100, 80), fling = (\<lambda>p. p), get_scale = (\<lambda>_. 3)\<rparr>"

definition example_scheme :: Scheme where
  "example_scheme = \<lparr>get_color = (\<lambda>_. ''#EEEEEE'')\<rparr>"

definition example_configuration :: MapConfiguration where
  "example_configuration =
     \<lparr>is_wireframe = False, label_mode = LABELS_ALL, building_mode = EXTRUDED, overlap = 12\<rparr>"

definition empty_constructor :: Constructor where
  "empty_constructor =
     \<lparr>figures = [], roads = [], trees = [], craters = [], direction_sectors = [],
      buildings = [], heights = [], points = []\<rparr>"

definition example_figure :: "real \<Rightarrow> string \<Rightarrow> StyledFigure" where
  "example_figure p d =
     \<lparr>line_style = \<lparr>style = [(''stroke'', d)], priority = p\<rparr>, get_path = (\<lambda>_. d)\<rparr>"

definition example_figures :: "StyledFigure list" where
  "example_figures =
     [example_figure 2 ''M 0,0 L 1,1''] @ example_figure 1 [] #
     [example_figure 1 ''M 2,2 L 3,3'', example_figure 1 ''M 4,4 L 5,5'']"

definition example_point :: "real \<Rightarrow> string \<Rightarrow> Point" where
  "example_point p name = \<lparr>point_position = (0, 0), point_priority = p, label = name\<rparr>"

definition example_building :: "real \<Rightarrow> real \<Rightarrow> Building" where
  "example_building h m = \<lparr>polygon = [], height = h, min_height = m\<rparr>"

definition wireframe_configuration :: MapConfiguration where
  "wireframe_configuration =
     \<lparr>is_wireframe = True, label_mode = LABELS_ALL, building_mode = FLAT, overlap = 0\<rparr>"

definition other_mode_configuration :: MapConfiguration where
  "other_mode_configuration =
     \<lparr>is_wireframe = False, label_mode = NO, building_mode = OTHER_MODE ''dome'',
      overlap = 0\<rparr>"

definition example_points :: "Point list" where
  "example_points = [example_point 1 ''a'', example_point 3 ''b'', example_point 2 ''c'']"

definition example_buildings :: "Building list" where
  "example_buildings = [example_building 9 3, example_building 6 0]"

definition example_buildings_constructor :: Constructor where
  "example_buildings_constructor =
     empty_constructor\<lparr>buildings := example_buildings, heights := [9, 3, 6]\<rparr>"

definition example_road :: "real \<Rightarrow> Color \<Rightarrow> OSMNode list list \<Rightarrow> Road" where
  "example_road l col rings =
     \<lparr>outers = rings, inners = [], lanes = 1, layer = l,
      matcher = \<lparr>border_color = ''#000000'', color = col\<rparr>\<rparr>"

definition example_layered_roads :: "Road list" where
  "example_layered_roads =
     [example_road 1 ''#AAAAAA'' [], example_road 0 ''#BBBBBB'' [],
      example_road 1 ''#CCCCCC'' []]"

definition example_node :: "int \<Rightarrow> OSMNode" where
  "example_node k = \<lparr>id_ = k, coordinates = (of_int k, 0)\<rparr>"

definition example_part :: "nat \<Rightarrow> int \<Rightarrow> int \<Rightarrow> RoadPart" where
  "example_part i a b =
     \<lparr>part_id = i, point_1 = (of_int a, 0), point_2 = (of_int b, 0), part_lanes = 1,
      part_scale = 3\<rparr>"

definition star_roads :: "int list \<Rightarrow> Road list" where
  "star_roads ks = map (\<lambda>k. example_road 0 ''#AAAAAA'' [[example_node 0, example_node k]]) ks"

definition ringed_road :: Road where
  "ringed_road =
     \<lparr>outers = [[example_node 0, example_node 1],
                [example_node 7, example_node 8, example_node 9, example_node 7]],
      inners = [[example_node 7, example_node 5, example_node 6, example_node 7]],
      lanes = 1, layer = 0,
      matcher = \<lparr>border_color = ''#000000'', color = ''#AAAAAA''\<rparr>\<rparr>"

section \<open>Loops and dictionaries: what they compute\<close>

lemma for_loop_append: "for_loop (\<lambda>x s. s @ [g x]) xs s = s @ map g xs"
  by (induction xs arbitrary: s) simp_all

lemma for_loop_filter:
  "for_loop (\<lambda>x s. if P x then s @ [g x] else s) xs s = s @ map g (filter P xs)"
  by (induction xs arbitrary: s) simp_all

lemma for_loop_skip:
  "for_loop (\<lambda>x s. if P x then s else s @ [g x]) xs s =
     s @ map g (filter (\<lambda>x. \<not> P x) xs)"
  by (induction xs arbitrary: s) simp_all

lemma map_fst_dict_modify: "map fst (dict_modify k f d) = map fst d"
  by (induction d) auto

lemma keys_dict_modify: "fst ` set (dict_modify k f d) = fst ` set d"
  using map_fst_dict_modify[of k f d] by (metis set_map)

lemma map_of_dict_modify:
  "map_of (dict_modify k f d) k' =
     (if k' = k then map_option f (map_of d k) else map_of d k')"
  by (induction d) auto

lemma map_fst_dict_setdefault:
  "map fst (dict_setdefault k v d) =
     (if k \<in> fst ` set d then map fst d else map fst d @ [k])"
  by (auto simp: dict_setdefault_def map_of_eq_None_iff)

lemma keys_dict_setdefault: "fst ` set (dict_setdefault k v d) = insert k (fst ` set d)"
  by (auto simp: dict_setdefault_def map_of_eq_None_iff)

lemma map_of_dict_setdefault:
  "map_of (dict_setdefault k v d) k' =
     (if k' = k \<and> map_of d k = None then Some v else map_of d k')"
  by (auto simp: dict_setdefault_def map_add_def split: option.splits)

lemma map_of_Some_key: "map_of d k = Some v \<Longrightarrow> k \<in> fst ` set d"
  by (metis map_of_eq_None_iff option.distinct(1))

subsection \<open>The figures\<close>

lemma draw_ways_eq:
  "draw_ways M ways svg =
     svg @ map (\<lambda>way. SvgAddPath (get_path way (flinger M)) (style (line_style way)))
             (filter (\<lambda>way. get_path way (flinger M) \<noteq> []) ways)"
  by (induction ways arbitrary: svg) (simp_all add: Let_def)

subsection \<open>The dictionary of the layers\<close>

lemma group_keys_set:
  "fst ` set (for_loop (\<lambda>road d. dict_modify (layer road) (\<lambda>l. l @ [road])
           (dict_setdefault (layer road) [] d)) rs d) = fst ` set d \<union> layer ` set rs"
  by (induction rs arbitrary: d) (simp_all add: keys_dict_modify keys_dict_setdefault)

lemma group_keys_distinct:
  "distinct (map fst d) \<Longrightarrow>
   distinct (map fst (for_loop (\<lambda>road d. dict_modify (layer road) (\<lambda>l. l @ [road])
           (dict_setdefault (layer road) [] d)) rs d))"
  by (induction rs arbitrary: d) (auto simp: map_fst_dict_modify map_fst_dict_setdefault)

lemma group_map_of:
  "map_of (for_loop (\<lambda>road d. dict_modify (layer road) (\<lambda>l. l @ [road])
           (dict_setdefault (layer road) [] d)) rs d) l =
     (if l \<in> fst ` set d \<union> layer ` set rs
      then Some ((case map_of d l of None \<Rightarrow> [] | Some x \<Rightarrow> x) @ filter (\<lambda>r. layer r = l) rs)
      else None)"
proof (induction rs arbitrary: d)
  case Nil
  then show ?case by (auto simp: map_of_eq_None_iff split: option.splits)
next
  case (Cons r rs)
  show ?case
    by (auto simp: Cons.IH keys_dict_modify keys_dict_setdefault map_of_dict_modify
        map_of_dict_setdefault map_of_eq_None_iff split: option.splits dest: map_of_Some_key)
qed

lemma group_roads_keys: "fst ` set (group_roads rs) = layer ` set rs"
  unfolding group_roads_def by (simp add: group_keys_set)

lemma group_roads_distinct: "distinct (map fst (group_roads rs))"
  unfolding group_roads_def by (rule group_keys_distinct) simp

lemma group_roads_get:
  "l \<in> layer ` set rs \<Longrightarrow> dict_get (group_roads rs) l = Inr (filter (\<lambda>r. layer r = l) rs)"
  unfolding group_roads_def dict_get_def by (simp add: group_map_of)

lemma sorted_layer_keys:
  "sort (map fst (group_roads rs)) = sorted_list_of_set (layer ` set rs)"
proof -
  have "sort (map fst (group_roads rs)) = sorted_list_of_set (set (map fst (group_roads rs)))"
    using group_roads_distinct[of rs]
    by (simp only: sorted_list_of_set_sort_remdups distinct_remdups_id)
  then show ?thesis by (simp add: group_roads_keys)
qed

lemma draw_layers_eq:
  "set ls \<subseteq> layer ` set rs \<Longrightarrow>
   draw_layers (group_roads rs) ls svg = Inr (svg @ concat (map (layer_calls rs) ls))"
proof (induction ls arbitrary: svg)
  case Nil
  then show ?case by simp
next
  case (Cons l ls)
  from Cons.prems have l: "l \<in> layer ` set rs" and ls: "set ls \<subseteq> layer ` set rs" by auto
  show ?case
    by (simp add: group_roads_get[OF l] Cons.IH[OF ls] for_loop_append layer_calls_def)
qed

lemma road_section:
  "draw_layers (group_roads rs) (sort (map fst (group_roads rs))) svg =
     Inr (svg @ concat (map (layer_calls rs) (sorted_list_of_set (layer ` set rs))))"
  by (simp add: sorted_layer_keys draw_layers_eq)

subsection \<open>The bands of the buildings\<close>

lemma draw_band_eq:
  "draw_band bs scale h (svg, p) = (svg @ band_calls bs scale (p, h), h)"
  by (simp add: draw_band_def band_calls_def for_loop_skip for_loop_filter not_less not_le
      conj_commute)

lemma bands_eq:
  "for_loop (draw_band bs scale) hs (svg, p) =
     (svg @ concat (map (band_calls bs scale) (zip (p # hs) hs)), last (p # hs))"
proof (induction hs arbitrary: svg p)
  case Nil
  then show ?case by simp
next
  case (Cons h hs)
  show ?case by (simp add: draw_band_eq Cons.IH)
qed

subsection \<open>The whole of \<^verbatim>\<open>draw\<close>\<close>

lemma for_loop_id: "for_loop (\<lambda>x s. s) xs s = s"
  by (induction xs) simp_all

lemma draw_buildings_eq: "draw_buildings M c svg = svg @ building_calls M c"
  by (simp add: draw_buildings_def building_calls_def for_loop_append bands_eq Let_def)

lemma draw_points_eq: "draw_points M c svg = svg @ point_calls M c"
  by (simp add: draw_points_def point_calls_def for_loop_append for_loop_id Let_def)

lemma draw_eq:
  "draw M c =
     Inr (SvgAddRect (0, 0) (flinger_size (flinger M)) (background_color M) #
          figure_calls M c @ road_calls (roads c) @ map TreeDraw (trees c) @
          map CraterDraw (craters c) @ map DirectionSectorDraw (direction_sectors c) @
          building_calls M c @ point_calls M c)"
  by (simp add: draw_def Let_def draw_ways_eq road_section for_loop_append draw_buildings_eq
      draw_points_eq figure_calls_def road_calls_def)

subsection \<open>Membership in the bands\<close>

lemma DrawTexts_notin_other:
  "DrawTexts p occ lm \<notin> set (figure_calls M c)"
  "DrawTexts p occ lm \<notin> set (road_calls rs)"
  "DrawTexts p occ lm \<notin> set (building_calls M c)"
  by (auto simp: figure_calls_def road_calls_def layer_calls_def border_call_def fill_call_def
      building_calls_def band_calls_def)

lemma walls_in_band:
  "DrawWalls b h p s \<in> set (band_calls bs sc ph) \<longleftrightarrow>
     b \<in> set bs \<and> ph = (p, h) \<and> min_height b \<le> h \<and> h \<le> height b \<and> s = sc"
  by (cases ph) (auto simp: band_calls_def)

lemma roof_in_band:
  "DrawRoof b s \<in> set (band_calls bs sc ph) \<longleftrightarrow> b \<in> set bs \<and> height b = snd ph \<and> s = sc"
  by (cases ph) (auto simp: band_calls_def)

lemma zip_previous_right: "(\<exists>p. (p, h) \<in> set (zip (q # hs) hs)) \<longleftrightarrow> h \<in> set hs"
proof (induction hs arbitrary: q)
  case Nil
  then show ?case by simp
next
  case (Cons a hs)
  then show ?case by auto
qed

lemma roof_in_bands:
  "DrawRoof b s \<in> set (concat (map (band_calls bs sc) (zip (q # hs) hs))) \<longleftrightarrow>
     b \<in> set bs \<and> height b \<in> set hs \<and> s = sc"
proof -
  have "DrawRoof b s \<in> set (concat (map (band_calls bs sc) (zip (q # hs) hs))) \<longleftrightarrow>
      b \<in> set bs \<and> s = sc \<and> (\<exists>p. (p, height b) \<in> set (zip (q # hs) hs))"
    by (force simp: roof_in_band)
  then show ?thesis by (simp only: zip_previous_right) blast
qed

subsection \<open>The order of the road calls\<close>

lemma road_order_left: "(\<And>r c w. x \<noteq> RoadDraw r c w) \<Longrightarrow> road_order x y"
  by (cases x) auto

lemma road_order_right: "(\<And>r c w. y \<noteq> RoadDraw r c w) \<Longrightarrow> road_order x y"
  by (cases x; cases y) auto

lemma layer_calls_cases:
  "x \<in> set (layer_calls rs l) \<Longrightarrow>
     \<exists>r. layer r = l \<and> (x = border_call r \<or> x = fill_call r)"
  by (auto simp: layer_calls_def)

lemma sorted_wrt_all:
  "(\<And>x y. x \<in> set xs \<Longrightarrow> y \<in> set xs \<Longrightarrow> P x y) \<Longrightarrow> sorted_wrt P xs"
  by (induction xs) auto

lemma sorted_wrt_layer_calls: "sorted_wrt road_order (layer_calls rs l)"
proof -
  have "sorted_wrt road_order (map border_call (filter (\<lambda>r. layer r = l) rs))"
    by (rule sorted_wrt_all) (auto simp: border_call_def)
  moreover have "sorted_wrt road_order (map fill_call (filter (\<lambda>r. layer r = l) rs))"
    by (rule sorted_wrt_all) (auto simp: fill_call_def)
  ultimately show ?thesis
    by (auto simp: layer_calls_def sorted_wrt_append border_call_def fill_call_def)
qed

lemma sorted_wrt_layers:
  "sorted ls \<Longrightarrow> distinct ls \<Longrightarrow>
   sorted_wrt road_order (concat (map (layer_calls rs) ls))"
proof (induction ls)
  case Nil
  then show ?case by simp
next
  case (Cons l ls)
  have cross: "road_order x y"
    if x: "x \<in> set (layer_calls rs l)" and y: "y \<in> set (layer_calls rs l')" and l': "l' \<in> set ls"
    for x y l'
  proof -
    from Cons.prems l' have "l < l'" by (auto simp: less_le)
    with layer_calls_cases [OF x] layer_calls_cases [OF y] show ?thesis
      by (auto simp: border_call_def fill_call_def)
  qed
  from Cons show ?case
    by (auto simp: sorted_wrt_append sorted_wrt_layer_calls intro: cross)
qed

lemma sorted_wrt_road_calls: "sorted_wrt road_order (road_calls rs)"
  unfolding road_calls_def by (rule sorted_wrt_layers) simp_all

lemma sorted_wrt_around:
  assumes "\<And>x r c w. x \<in> set pre \<Longrightarrow> x \<noteq> RoadDraw r c w"
    and "\<And>x r c w. x \<in> set post \<Longrightarrow> x \<noteq> RoadDraw r c w"
    and "sorted_wrt road_order mid"
  shows "sorted_wrt road_order (pre @ mid @ post)"
proof -
  have l: "road_order x y" if "x \<in> set pre" for x y
    by (rule road_order_left) (use that assms(1) in blast)
  have r: "road_order x y" if "y \<in> set post" for x y
    by (rule road_order_right) (use that assms(2) in blast)
  have "sorted_wrt road_order pre"
    by (rule sorted_wrt_all) (rule l)
  moreover have "sorted_wrt road_order post"
    by (rule sorted_wrt_all) (rule r)
  ultimately show ?thesis
    using assms(3) l r by (auto simp: sorted_wrt_append)
qed

lemma RoadDraw_notin_other:
  "RoadDraw r col w \<notin> set (figure_calls M c)"
  "RoadDraw r col w \<notin> set (building_calls M c)"
  "RoadDraw r col w \<notin> set (point_calls M c)"
  by (auto simp: figure_calls_def building_calls_def band_calls_def point_calls_def Let_def)

lemma draw_road_order: "draw M c = Inr tr \<Longrightarrow> sorted_wrt road_order tr"
proof -
  assume d: "draw M c = Inr tr"
  let ?pre = "SvgAddRect (0, 0) (flinger_size (flinger M)) (background_color M) #
      figure_calls M c"
  let ?post = "map TreeDraw (trees c) @ map CraterDraw (craters c) @
      map DirectionSectorDraw (direction_sectors c) @ building_calls M c @ point_calls M c"
  from d have tr: "tr = ?pre @ road_calls (roads c) @ ?post"
    by (simp add: draw_eq)
  have "sorted_wrt road_order (?pre @ road_calls (roads c) @ ?post)"
    by (rule sorted_wrt_around) (auto simp: RoadDraw_notin_other sorted_wrt_road_calls)
  with tr show ?thesis by simp
qed

subsection \<open>The body of the loop over the segments\<close>

lemma parts_of_setdefault: "parts_of (dict_setdefault k [] d) n = parts_of d n"
  by (simp add: parts_of_def map_of_dict_setdefault)

lemma parts_of_modify:
  "parts_of (dict_modify k f d) n =
     (if n = k \<and> k \<in> fst ` set d then f (parts_of d n) else parts_of d n)"
  by (auto simp: parts_of_def map_of_dict_modify map_of_eq_None_iff split: option.splits
      dest: map_of_Some_key)

lemma distinct_dict_setdefault:
  "distinct (map fst d) \<Longrightarrow> distinct (map fst (dict_setdefault k v d))"
  by (simp add: map_fst_dict_setdefault)

lemma parts_of_in_items:
  assumes "p \<in> set (parts_of ns n)"
  shows "\<exists>item \<in> set ns. fst item = n \<and> p \<in> set (snd item)"
proof (cases "map_of ns n")
  case None
  with assms show ?thesis by (simp add: parts_of_def)
next
  case (Some ps)
  then have "(n, ps) \<in> set ns" by (rule map_of_SomeD)
  with assms Some show ?thesis by (force simp: parts_of_def)
qed

lemma items_in_parts_of:
  "distinct (map fst ns) \<Longrightarrow> item \<in> set ns \<Longrightarrow> parts_of ns (fst item) = snd item"
  by (cases item) (simp add: parts_of_def)

lemma add_segment_nodes:
  "nodes (add_segment M road ring index st) =
     dict_modify (ring ! (index + 1)) (set_add (new_part_2 M road ring index st))
       (dict_modify (ring ! index) (set_add (new_part_1 M road ring index st))
         (dict_setdefault (ring ! (index + 1)) []
           (dict_setdefault (ring ! index) [] (nodes st))))"
  by (simp add: add_segment_def Let_def new_part_1_def new_part_2_def)

lemma add_segment_next_id: "next_id (add_segment M road ring index st) = next_id st + 2"
  by (simp add: add_segment_def Let_def)

lemma add_segment_keys:
  "fst ` set (nodes (add_segment M road ring index st)) =
     insert (ring ! index) (insert (ring ! (index + 1)) (fst ` set (nodes st)))"
  by (auto simp: add_segment_nodes keys_dict_modify keys_dict_setdefault)

lemma add_segment_distinct:
  "distinct (map fst (nodes st)) \<Longrightarrow> distinct (map fst (nodes (add_segment M road ring index st)))"
  by (simp add: add_segment_nodes map_fst_dict_modify distinct_dict_setdefault)

lemma fresh_not_member:
  "parts_state_ok st \<Longrightarrow> part_id p \<ge> next_id st \<Longrightarrow> p \<notin> set (parts_of (nodes st) n)"
proof
  assume ok: "parts_state_ok st" and ge: "part_id p \<ge> next_id st"
    and "p \<in> set (parts_of (nodes st) n)"
  then obtain item where "item \<in> set (nodes st)" "p \<in> set (snd item)"
    by (blast dest: parts_of_in_items)
  with ok have "part_id p < next_id st" by (simp add: parts_state_ok_def)
  with ge show False by simp
qed

lemma add_segment_parts:
  assumes "parts_state_ok st"
  shows "parts_of (nodes (add_segment M road ring index st)) n =
     parts_of (nodes st) n @
     (if n = ring ! index then [new_part_1 M road ring index st] else []) @
     (if n = ring ! (index + 1) then [new_part_2 M road ring index st] else [])"
proof -
  have f1: "new_part_1 M road ring index st \<notin> set (parts_of (nodes st) m)" for m
    by (rule fresh_not_member [OF assms]) (simp add: new_part_1_def)
  have f2: "new_part_2 M road ring index st \<notin> set (parts_of (nodes st) m)" for m
    by (rule fresh_not_member [OF assms]) (simp add: new_part_2_def)
  have ne: "new_part_2 M road ring index st \<noteq> new_part_1 M road ring index st"
    by (simp add: new_part_1_def new_part_2_def)
  show ?thesis
    using f1 f2 ne
    by (simp add: add_segment_nodes parts_of_modify parts_of_setdefault keys_dict_modify
        keys_dict_setdefault set_add_def)
qed

lemma add_segment_ok:
  assumes "parts_state_ok st"
  shows "parts_state_ok (add_segment M road ring index st)"
proof -
  have d: "distinct (map fst (nodes (add_segment M road ring index st)))"
    using assms by (simp add: parts_state_ok_def add_segment_distinct)
  have "part_id p < next_id st + 2"
    if item: "item \<in> set (nodes (add_segment M road ring index st))" and p: "p \<in> set (snd item)"
    for item p
  proof -
    from items_in_parts_of [OF d item] p
    have "p \<in> set (parts_of (nodes (add_segment M road ring index st)) (fst item))" by simp
    then have "p \<in> set (parts_of (nodes st) (fst item)) \<or>
        p = new_part_1 M road ring index st \<or> p = new_part_2 M road ring index st"
      by (auto simp: add_segment_parts [OF assms] split: if_splits)
    then show ?thesis
      using assms
      by (auto simp: parts_state_ok_def new_part_1_def new_part_2_def dest!: parts_of_in_items
          intro: less_trans)
  qed
  with d show ?thesis
    by (simp add: parts_state_ok_def add_segment_next_id)
qed

lemma initial_parts_ok: "parts_state_ok initial_parts"
  by (simp add: parts_state_ok_def initial_parts_def)

subsection \<open>The loop over the segments of one ring\<close>

lemma segments_ok:
  "parts_state_ok st \<Longrightarrow> parts_state_ok (for_loop (add_segment M road ring) idxs st)"
  by (induction idxs arbitrary: st) (simp_all add: add_segment_ok)

lemma segments_next_id:
  "next_id (for_loop (add_segment M road ring) idxs st) = next_id st + 2 * length idxs"
  by (induction idxs arbitrary: st) (simp_all add: add_segment_next_id)

lemma segments_keys:
  "fst ` set (nodes (for_loop (add_segment M road ring) idxs st)) =
     fst ` set (nodes st) \<union> (\<lambda>i. ring ! i) ` set idxs \<union> (\<lambda>i. ring ! (i + 1)) ` set idxs"
  by (induction idxs arbitrary: st) (auto simp: add_segment_keys)

lemma segments_length:
  "parts_state_ok st \<Longrightarrow>
   length (parts_of (nodes (for_loop (add_segment M road ring) idxs st)) n) =
     length (parts_of (nodes st) n) +
     length (filter (\<lambda>i. ring ! i = n) idxs) + length (filter (\<lambda>i. ring ! (i + 1) = n) idxs)"
proof (induction idxs arbitrary: st)
  case Nil
  then show ?case by simp
next
  case (Cons i idxs)
  from Cons.prems have "parts_state_ok (add_segment M road ring i st)"
    by (rule add_segment_ok)
  from Cons.IH [OF this] show ?case
    by (simp add: add_segment_parts [OF Cons.prems])
qed

lemma add_segment_directed:
  assumes ok: "parts_state_ok st" and dir: "parts_directed M st"
  shows "parts_directed M (add_segment M road ring index st)"
  unfolding parts_directed_def
proof (intro ballI)
  fix item p
  assume item: "item \<in> set (nodes (add_segment M road ring index st))"
    and p: "p \<in> set (snd item)"
  have d: "distinct (map fst (nodes (add_segment M road ring index st)))"
    using add_segment_ok [OF ok] by (simp add: parts_state_ok_def)
  from items_in_parts_of [OF d item] p
  have "p \<in> set (parts_of (nodes (add_segment M road ring index st)) (fst item))" by simp
  then consider "p \<in> set (parts_of (nodes st) (fst item))"
    | "fst item = ring ! index" "p = new_part_1 M road ring index st"
    | "fst item = ring ! (index + 1)" "p = new_part_2 M road ring index st"
    by (auto simp: add_segment_parts [OF ok] split: if_splits)
  then show "point_1 p = fling (flinger M) (coordinates (fst item))"
  proof cases
    case 1
    then obtain item' where "item' \<in> set (nodes st)" "fst item' = fst item" "p \<in> set (snd item')"
      by (blast dest: parts_of_in_items)
    with dir show ?thesis by (auto simp: parts_directed_def)
  next
    case 2
    then show ?thesis by (simp add: new_part_1_def)
  next
    case 3
    then show ?thesis by (simp add: new_part_2_def)
  qed
qed

lemma segments_directed:
  "parts_state_ok st \<Longrightarrow> parts_directed M st \<Longrightarrow>
   parts_directed M (for_loop (add_segment M road ring) idxs st)"
  by (induction idxs arbitrary: st) (simp_all add: add_segment_ok add_segment_directed)

subsection \<open>The loop over the roads\<close>

lemma collect_parts_Inr:
  "(\<exists>st'. collect_parts M rs st = Inr st') \<longleftrightarrow> (\<forall>road \<in> set rs. outers road \<noteq> [])"
  by (induction rs arbitrary: st) (auto split: list.splits)

lemma collect_parts_Inl:
  "collect_parts M rs st = Inl e \<Longrightarrow> e = IndexError \<and> (\<exists>road \<in> set rs. outers road = [])"
  by (induction rs arbitrary: st) (auto split: list.splits)

lemma collect_parts_ok:
  "collect_parts M rs st = Inr st' \<Longrightarrow> parts_state_ok st \<Longrightarrow> parts_state_ok st'"
  by (induction rs arbitrary: st) (auto split: list.splits simp: segments_ok)

lemma collect_parts_directed:
  "collect_parts M rs st = Inr st' \<Longrightarrow> parts_state_ok st \<Longrightarrow> parts_directed M st \<Longrightarrow>
   parts_directed M st'"
  by (induction rs arbitrary: st) (auto split: list.splits simp: segments_ok segments_directed)

lemma collect_parts_next_id:
  "collect_parts M rs st = Inr st' \<Longrightarrow>
   next_id st' = next_id st + 2 * sum_list (map road_segments rs)"
  by (induction rs arbitrary: st)
     (auto split: list.splits simp: segments_next_id road_segments_def)

lemma collect_parts_length:
  "collect_parts M rs st = Inr st' \<Longrightarrow> parts_state_ok st \<Longrightarrow>
   length (parts_of (nodes st') n) =
     length (parts_of (nodes st) n) + sum_list (map (\<lambda>road. segment_ends road n) rs)"
proof (induction rs arbitrary: st)
  case Nil
  then show ?case by simp
next
  case (Cons road rs)
  from Cons.prems(1) obtain ring rest where o: "outers road = ring # rest"
    by (cases "outers road") auto
  let ?st = "for_loop (add_segment M road ring) [0..<length ring - 1] st"
  from Cons.prems(1) o have c: "collect_parts M rs ?st = Inr st'" by simp
  have ok: "parts_state_ok ?st" using Cons.prems(2) by (rule segments_ok)
  from Cons.IH [OF c ok] show ?case
    by (simp add: segments_length [OF Cons.prems(2)] segment_ends_def o)
qed

lemma collect_parts_keys:
  "collect_parts M rs st = Inr st' \<Longrightarrow>
   fst ` set (nodes st') \<subseteq>
     fst ` set (nodes st) \<union> (\<Union>road \<in> set rs. \<Union>ring \<in> set (take 1 (outers road)). set ring)"
proof (induction rs arbitrary: st)
  case Nil
  then show ?case by simp
next
  case (Cons road rs)
  from Cons.prems(1) obtain ring rest where o: "outers road = ring # rest"
    by (cases "outers road") auto
  let ?st = "for_loop (add_segment M road ring) [0..<length ring - 1] st"
  from Cons.prems(1) o have c: "collect_parts M rs ?st = Inr st'" by simp
  have "fst ` set (nodes ?st) \<subseteq> fst ` set (nodes st) \<union> set ring"
    by (auto simp: segments_keys)
  with Cons.IH [OF c] show ?case
    using o by auto
qed

subsection \<open>The loop over the nodes\<close>

lemma dict_get_item:
  "distinct (map fst ns) \<Longrightarrow> item \<in> set ns \<Longrightarrow> dict_get ns (fst item) = Inr (snd item)"
  by (cases item) (simp add: dict_get_def)

lemma draw_intersections_eq:
  "distinct (map fst ns) \<Longrightarrow> set items \<subseteq> set ns \<Longrightarrow>
   draw_intersections so ns (map fst items) svg =
     Inr (svg @ concat (map (\<lambda>item. if 4 \<le> length (snd item)
                                      then [IntersectionDraw (so (snd item)) True] else [])
                         items))"
proof (induction items arbitrary: svg)
  case Nil
  then show ?case by simp
next
  case (Cons item items)
  from Cons.prems have g: "dict_get ns (fst item) = Inr (snd item)"
    by (auto intro: dict_get_item)
  from Cons.prems have "set items \<subseteq> set ns" by simp
  from Cons.IH [OF Cons.prems(1) this] show ?case
    by (simp add: g not_less)
qed

lemma draw_roads_eq:
  "draw_roads so M rs =
     (case collect_parts M rs initial_parts of
        Inl e \<Rightarrow> Inl e
      | Inr st \<Rightarrow>
          Inr (concat (map (\<lambda>item. if 4 \<le> length (snd item)
                                    then [IntersectionDraw (so (snd item)) True] else [])
                        (nodes st))))"
proof (cases "collect_parts M rs initial_parts")
  case (Inl e)
  then show ?thesis by (simp add: draw_roads_def)
next
  case (Inr st)
  then have "parts_state_ok st"
    using initial_parts_ok by (rule collect_parts_ok)
  then have "distinct (map fst (nodes st))" by (simp add: parts_state_ok_def)
  from draw_intersections_eq [OF this subset_refl, of so "[]"] Inr show ?thesis
    by (simp add: draw_roads_def)
qed

subsection \<open>What the roads are read for\<close>

lemma add_segment_lanes:
  "lanes road = lanes road' \<Longrightarrow> add_segment M road ring = add_segment M road' ring"
  by (simp add: add_segment_def fun_eq_iff)

lemma collect_parts_cong:
  "map (\<lambda>road. (take 1 (outers road), lanes road)) rs =
   map (\<lambda>road. (take 1 (outers road), lanes road)) rs' \<Longrightarrow>
   collect_parts M rs st = collect_parts M rs' st"
proof (induction rs arbitrary: rs' st)
  case Nil
  then show ?case by simp
next
  case (Cons road rs)
  then obtain road' rs'' where rs': "rs' = road' # rs''" by (cases rs') auto
  with Cons.prems have t: "take 1 (outers road) = take 1 (outers road')"
    and l: "lanes road = lanes road'"
    and m: "map (\<lambda>road. (take 1 (outers road), lanes road)) rs =
      map (\<lambda>road. (take 1 (outers road), lanes road)) rs''"
    by auto
  show ?case
  proof (cases "outers road")
    case Nil
    with t have "outers road' = []" by (cases "outers road'") auto
    with Nil rs' show ?thesis by simp
  next
    case (Cons ring rest)
    with t obtain rest' where "outers road' = ring # rest'" by (cases "outers road'") auto
    with Cons rs' show ?thesis
      by (simp add: add_segment_lanes [OF l] Cons.IH [OF m])
  qed
qed

subsection \<open>Roads meeting in one node\<close>

lemma example_node_eq [simp]: "example_node a = example_node b \<longleftrightarrow> a = b"
  by (simp add: example_node_def)

lemma star_collect_step:
  "collect_parts (Map_init example_flinger example_scheme example_configuration)
     (example_road 0 col [[example_node 0, example_node k]] # rs) \<lparr>nodes = ns, next_id = i\<rparr> =
   collect_parts (Map_init example_flinger example_scheme example_configuration) rs
     \<lparr>nodes =
        dict_modify (example_node k) (set_add (example_part (i + 1) k 0))
          (dict_modify (example_node 0) (set_add (example_part i 0 k))
            (dict_setdefault (example_node k) []
              (dict_setdefault (example_node 0) [] ns))),
      next_id = i + 2\<rparr>"
  by (simp add: add_segment_def Let_def example_part_def Map_init_def example_flinger_def
      example_road_def example_node_def)

lemma star_4:
  "collect_parts (Map_init example_flinger example_scheme example_configuration)
     (star_roads [1, 2, 3, 4]) initial_parts =
   Inr \<lparr>nodes =
          [(example_node 0, [example_part 0 0 1, example_part 2 0 2, example_part 4 0 3,
                             example_part 6 0 4]),
           (example_node 1, [example_part 1 1 0]),
           (example_node 2, [example_part 3 2 0]),
           (example_node 3, [example_part 5 3 0]),
           (example_node 4, [example_part 7 4 0])],
        next_id = 8\<rparr>"
  by (simp add: star_roads_def initial_parts_def star_collect_step dict_setdefault_def
      set_add_def example_part_def del: collect_parts.simps(2))

lemma star_3:
  "collect_parts (Map_init example_flinger example_scheme example_configuration)
     (star_roads [1, 2, 3]) initial_parts =
   Inr \<lparr>nodes =
          [(example_node 0, [example_part 0 0 1, example_part 2 0 2, example_part 4 0 3]),
           (example_node 1, [example_part 1 1 0]),
           (example_node 2, [example_part 3 2 0]),
           (example_node 3, [example_part 5 3 0])],
        next_id = 6\<rparr>"
  by (simp add: star_roads_def initial_parts_def star_collect_step dict_setdefault_def
      set_add_def example_part_def del: collect_parts.simps(2))

subsection \<open>Lists that differ by the order of iteration\<close>

lemma list_all2_concat_map:
  "(\<And>x. x \<in> set xs \<Longrightarrow> list_all2 R (f x) (g x)) \<Longrightarrow>
   list_all2 R (concat (map f xs)) (concat (map g xs))"
  by (induction xs) (auto intro: list_all2_appendI)

lemma sort_set_unique:
  "set hs = set hs' \<Longrightarrow> distinct hs \<Longrightarrow> distinct hs' \<Longrightarrow> sort hs = sort (hs' :: real list)"
  by (rule sorted_distinct_set_unique) simp_all

section \<open>The claims\<close>

subsection \<open>C5: the figures are drawn in ascending order of priority\<close>

text \<open>
  C5. \<^verbatim>\<open>draw\<close> raises no error and, right after the background, adds one path for each
  figure of \<^verbatim>\<open>constructor.figures\<close> whose path commands are not the empty string, in the
  order of the figures sorted by \<^verbatim>\<open>line_style.priority\<close>. The sorted list is ascending
  in priority, and the sort is stable: the figures of any one priority keep the order
  they have in the input. A figure whose path commands are empty is skipped: the drawing
  is the same as without that figure.
\<close>

theorem C5_figures:
  "draw M c =
     Inr (SvgAddRect (0, 0) (flinger_size (flinger M)) (background_color M) #
          map (\<lambda>way. SvgAddPath (get_path way (flinger M)) (style (line_style way)))
            (filter (\<lambda>way. get_path way (flinger M) \<noteq> [])
              (sort_key (\<lambda>x. priority (line_style x)) (figures c))) @
          road_calls (roads c) @ map TreeDraw (trees c) @ map CraterDraw (craters c) @
          map DirectionSectorDraw (direction_sectors c) @ building_calls M c @
          point_calls M c)
   \<and> sorted (map (\<lambda>x. priority (line_style x))
        (sort_key (\<lambda>x. priority (line_style x)) (figures c)))
   \<and> (\<forall>k. filter (\<lambda>x. priority (line_style x) = k)
             (sort_key (\<lambda>x. priority (line_style x)) (figures c)) =
           filter (\<lambda>x. priority (line_style x) = k) (figures c))
   \<and> (get_path w (flinger M) = [] \<longrightarrow>
        draw M (c\<lparr>figures := xs @ w # ys\<rparr>) = draw M (c\<lparr>figures := xs @ ys\<rparr>))"
proof -
  have skip: "get_path w (flinger M) = [] \<Longrightarrow>
      figure_calls M (c\<lparr>figures := xs @ w # ys\<rparr>) = figure_calls M (c\<lparr>figures := xs @ ys\<rparr>)"
    by (simp add: figure_calls_def filter_sort)
  have same: "building_calls M (c\<lparr>figures := fs\<rparr>) = building_calls M c"
    "point_calls M (c\<lparr>figures := fs\<rparr>) = point_calls M c" for fs
    by (simp_all add: building_calls_def point_calls_def)
  show ?thesis
    using skip by (simp add: draw_eq figure_calls_def sort_key_stable same)
qed

theorem C5_figures_witness:
  "draw (Map_init example_flinger example_scheme example_configuration)
     (empty_constructor\<lparr>figures := example_figures\<rparr>) =
     Inr [SvgAddRect (0, 0) (100, 80) ''#EEEEEE'',
          SvgAddPath ''M 2,2 L 3,3'' [(''stroke'', ''M 2,2 L 3,3'')],
          SvgAddPath ''M 4,4 L 5,5'' [(''stroke'', ''M 4,4 L 5,5'')],
          SvgAddPath ''M 0,0 L 1,1'' [(''stroke'', ''M 0,0 L 1,1'')],
          SvgAddGroup (1 / 10) []]
   \<and> draw (Map_init example_flinger example_scheme example_configuration)
        (empty_constructor\<lparr>figures := example_figures\<rparr>) =
     draw (Map_init example_flinger example_scheme example_configuration)
        (empty_constructor\<lparr>figures :=
           [example_figure 2 ''M 0,0 L 1,1''] @
           [example_figure 1 ''M 2,2 L 3,3'', example_figure 1 ''M 4,4 L 5,5'']\<rparr>)"
proof -
  let ?M = "Map_init example_flinger example_scheme example_configuration"
  note t = C5_figures [of ?M "empty_constructor\<lparr>figures := example_figures\<rparr>"
      "example_figure 1 []" "[example_figure 2 ''M 0,0 L 1,1'']"
      "[example_figure 1 ''M 2,2 L 3,3'', example_figure 1 ''M 4,4 L 5,5'']"]
  have a: "draw ?M (empty_constructor\<lparr>figures := example_figures\<rparr>) =
     Inr [SvgAddRect (0, 0) (100, 80) ''#EEEEEE'',
          SvgAddPath ''M 2,2 L 3,3'' [(''stroke'', ''M 2,2 L 3,3'')],
          SvgAddPath ''M 4,4 L 5,5'' [(''stroke'', ''M 4,4 L 5,5'')],
          SvgAddPath ''M 0,0 L 1,1'' [(''stroke'', ''M 0,0 L 1,1'')],
          SvgAddGroup (1 / 10) []]"
    unfolding t [THEN conjunct1]
    by (simp add: Map_init_def example_flinger_def example_scheme_def
        example_configuration_def empty_constructor_def example_figure_def
        example_figures_def road_calls_def building_calls_def point_calls_def
        make_occupied_def)
  have e: "get_path (example_figure 1 []) (flinger ?M) = []"
    by (simp add: example_figure_def)
  have b: "draw ?M (empty_constructor\<lparr>figures := example_figures\<rparr>) =
     draw ?M (empty_constructor\<lparr>figures :=
           [example_figure 2 ''M 0,0 L 1,1''] @
           [example_figure 1 ''M 2,2 L 3,3'', example_figure 1 ''M 4,4 L 5,5'']\<rparr>)"
    using t [THEN conjunct2, THEN conjunct2, THEN conjunct2, THEN mp, OF e]
    by (simp add: example_figures_def)
  from a b show ?thesis by (rule conjI)
qed

subsection \<open>C3: the points, in three passes\<close>

text \<open>
  C3. \<^verbatim>\<open>draw\<close> ends with three passes over the same list, the points sorted by
  descending priority (a stable sort by the negated priority): first
  \<^verbatim>\<open>draw_main_shapes\<close> of every point, then \<^verbatim>\<open>draw_extra_shapes\<close> of every point, then
  \<^verbatim>\<open>draw_texts\<close> of every point, the last pass only when the configuration is not
  wireframe and the label mode is not \<^verbatim>\<open>LabelMode.NO\<close>. The sorted list holds every
  point once, and a point never comes before one of higher priority.
\<close>


theorem C3_points:
  "draw M c =
     Inr ((SvgAddRect (0, 0) (flinger_size (flinger M)) (background_color M) #
           figure_calls M c @ road_calls (roads c) @ map TreeDraw (trees c) @
           map CraterDraw (craters c) @ map DirectionSectorDraw (direction_sectors c) @
           building_calls M c) @
          map (\<lambda>p. DrawMainShapes p (make_occupied M))
            (sort_key (\<lambda>x. - point_priority x) (points c)) @
          map (\<lambda>p. DrawExtraShapes p (make_occupied M))
            (sort_key (\<lambda>x. - point_priority x) (points c)) @
          (if \<not> is_wireframe (configuration M) \<and> label_mode (configuration M) \<noteq> NO
           then map (\<lambda>p. DrawTexts p (make_occupied M) (label_mode (configuration M)))
                  (sort_key (\<lambda>x. - point_priority x) (points c))
           else []))
   \<and> mset (sort_key (\<lambda>x. - point_priority x) (points c)) = mset (points c)
   \<and> (\<forall>i j. i < j \<and> j < length (points c) \<longrightarrow>
         point_priority (sort_key (\<lambda>x. - point_priority x) (points c) ! j)
           \<le> point_priority (sort_key (\<lambda>x. - point_priority x) (points c) ! i))"
proof -
  let ?nodes = "sort_key (\<lambda>x. - point_priority x) (points c)"
  have "sorted (map (\<lambda>x. - point_priority x) ?nodes)"
    by (rule sorted_sort_key)
  then have desc: "i < j \<Longrightarrow> j < length (points c) \<Longrightarrow>
      point_priority (?nodes ! j) \<le> point_priority (?nodes ! i)" for i j
    using sorted_nth_mono [of "map (\<lambda>x. - point_priority x) ?nodes" i j] by simp
  show ?thesis
    using desc by (simp add: draw_eq point_calls_def Let_def)
qed

theorem C3_points_witness:
  "draw (Map_init example_flinger example_scheme example_configuration)
     (empty_constructor\<lparr>points := example_points\<rparr>) =
     Inr [SvgAddRect (0, 0) (100, 80) ''#EEEEEE'', SvgAddGroup (1 / 10) [],
          DrawMainShapes (example_point 3 ''b'') (Some (Occupied 100 80 12)),
          DrawMainShapes (example_point 2 ''c'') (Some (Occupied 100 80 12)),
          DrawMainShapes (example_point 1 ''a'') (Some (Occupied 100 80 12)),
          DrawExtraShapes (example_point 3 ''b'') (Some (Occupied 100 80 12)),
          DrawExtraShapes (example_point 2 ''c'') (Some (Occupied 100 80 12)),
          DrawExtraShapes (example_point 1 ''a'') (Some (Occupied 100 80 12)),
          DrawTexts (example_point 3 ''b'') (Some (Occupied 100 80 12)) LABELS_ALL,
          DrawTexts (example_point 2 ''c'') (Some (Occupied 100 80 12)) LABELS_ALL,
          DrawTexts (example_point 1 ''a'') (Some (Occupied 100 80 12)) LABELS_ALL]
   \<and> point_priority (sort_key (\<lambda>x. - point_priority x) example_points ! 1)
       \<le> point_priority (sort_key (\<lambda>x. - point_priority x) example_points ! 0)"
proof -
  let ?M = "Map_init example_flinger example_scheme example_configuration"
  note t = C3_points [of ?M "empty_constructor\<lparr>points := example_points\<rparr>"]
  have a: "draw ?M (empty_constructor\<lparr>points := example_points\<rparr>) =
     Inr [SvgAddRect (0, 0) (100, 80) ''#EEEEEE'', SvgAddGroup (1 / 10) [],
          DrawMainShapes (example_point 3 ''b'') (Some (Occupied 100 80 12)),
          DrawMainShapes (example_point 2 ''c'') (Some (Occupied 100 80 12)),
          DrawMainShapes (example_point 1 ''a'') (Some (Occupied 100 80 12)),
          DrawExtraShapes (example_point 3 ''b'') (Some (Occupied 100 80 12)),
          DrawExtraShapes (example_point 2 ''c'') (Some (Occupied 100 80 12)),
          DrawExtraShapes (example_point 1 ''a'') (Some (Occupied 100 80 12)),
          DrawTexts (example_point 3 ''b'') (Some (Occupied 100 80 12)) LABELS_ALL,
          DrawTexts (example_point 2 ''c'') (Some (Occupied 100 80 12)) LABELS_ALL,
          DrawTexts (example_point 1 ''a'') (Some (Occupied 100 80 12)) LABELS_ALL]"
    unfolding t [THEN conjunct1]
    by (simp add: Map_init_def example_flinger_def example_scheme_def
        example_configuration_def empty_constructor_def example_points_def
        example_point_def figure_calls_def road_calls_def building_calls_def
        make_occupied_def)
  have h: "(0::nat) < 1 \<and> 1 < length (points (empty_constructor\<lparr>points := example_points\<rparr>))"
    by (simp add: example_points_def)
  have b: "point_priority (sort_key (\<lambda>x. - point_priority x) example_points ! 1)
       \<le> point_priority (sort_key (\<lambda>x. - point_priority x) example_points ! 0)"
    using t [THEN conjunct2, THEN conjunct2, THEN spec, THEN spec, THEN mp, OF h] by simp
  from a b show ?thesis by (rule conjI)
qed

subsection \<open>C8: wireframe mode\<close>

text \<open>
  C8. When the configuration is wireframe, whatever its label mode and whatever colour
  the scheme gives for the background, the first call of \<^verbatim>\<open>draw\<close> fills the canvas with
  \<^verbatim>\<open>#111111\<close>, and no call of \<^verbatim>\<open>draw_texts\<close> follows.
\<close>


theorem C8_wireframe:
  "is_wireframe cfg \<Longrightarrow>
   \<exists>rest. draw (Map_init fl sch cfg) c =
            Inr (SvgAddRect (0, 0) (flinger_size fl) ''#111111'' # rest)
        \<and> (\<forall>p occ lm. DrawTexts p occ lm \<notin> set rest)"
  by (auto simp: draw_eq Map_init_def point_calls_def Let_def DrawTexts_notin_other)

theorem C8_wireframe_witness:
  "is_wireframe wireframe_configuration
   \<and> label_mode wireframe_configuration = LABELS_ALL
   \<and> get_color example_scheme ''background_color'' = ''#EEEEEE''
   \<and> (\<exists>rest. draw (Map_init example_flinger example_scheme wireframe_configuration)
                (empty_constructor\<lparr>points := example_points\<rparr>) =
               Inr (SvgAddRect (0, 0) (100, 80) ''#111111'' # rest)
             \<and> (\<forall>p occ lm. DrawTexts p occ lm \<notin> set rest))"
proof -
  have w: "is_wireframe wireframe_configuration"
    by (simp add: wireframe_configuration_def)
  from C8_wireframe [OF w, of example_flinger example_scheme
      "empty_constructor\<lparr>points := example_points\<rparr>"]
  show ?thesis
    by (simp add: wireframe_configuration_def example_flinger_def example_scheme_def)
qed

subsection \<open>C7: a building mode that is neither flat nor extruded\<close>

text \<open>
  C7 as stated fails. With the building mode \<open>OTHER_MODE ''dome''\<close>, \<^verbatim>\<open>draw\<close> raises no
  error: it fills the background and draws the building as the extruded mode does.
\<close>


theorem C7_counterexample:
  "draw (Map_init example_flinger example_scheme other_mode_configuration)
     (empty_constructor\<lparr>buildings := [example_building 6 0], heights := [6]\<rparr>) =
     Inr [SvgAddRect (0, 0) (100, 80) ''#EEEEEE'',
          SvgAddGroup (1 / 10) [example_building 6 0],
          DrawWalls (example_building 6 0) 6 0 1,
          DrawRoof (example_building 6 0) 1]
   \<and> building_mode other_mode_configuration \<noteq> FLAT
   \<and> building_mode other_mode_configuration \<noteq> EXTRUDED"
  by (simp add: draw_eq Map_init_def example_flinger_def example_scheme_def
      other_mode_configuration_def empty_constructor_def example_building_def
      figure_calls_def road_calls_def building_calls_def band_calls_def point_calls_def
      make_occupied_def)

text \<open>
  C7, amended. \<^verbatim>\<open>draw\<close> compares the building mode with \<^verbatim>\<open>BuildingMode.FLAT\<close> only. For
  every configuration whose building mode is not flat, recognised or not, it raises no
  error, fills the background first and draws the buildings the extruded way (the shade
  group, then walls and roofs height by height): the calls are those of the same
  configuration with the mode \<open>EXTRUDED\<close>.
\<close>


theorem C7_no_mode_check:
  "building_mode (configuration M) \<noteq> FLAT \<Longrightarrow>
   draw M c =
     Inr (SvgAddRect (0, 0) (flinger_size (flinger M)) (background_color M) #
          figure_calls M c @ road_calls (roads c) @ map TreeDraw (trees c) @
          map CraterDraw (craters c) @ map DirectionSectorDraw (direction_sectors c) @
          SvgAddGroup (1 / 10) (buildings c) #
          concat (map (band_calls (buildings c) (get_scale (flinger M) None / 3))
                   (zip (0 # sort (heights c)) (sort (heights c)))) @
          point_calls M c)
   \<and> draw M c =
       draw (M\<lparr>configuration := (configuration M)\<lparr>building_mode := EXTRUDED\<rparr>\<rparr>) c"
  by (simp add: draw_eq building_calls_def figure_calls_def point_calls_def make_occupied_def
      Let_def)

theorem C7_no_mode_check_witness:
  "building_mode
     (configuration (Map_init example_flinger example_scheme other_mode_configuration))
     \<noteq> FLAT
   \<and> draw (Map_init example_flinger example_scheme other_mode_configuration)
       (empty_constructor\<lparr>buildings := [example_building 6 0], heights := [6]\<rparr>) =
     draw (Map_init example_flinger example_scheme
             (other_mode_configuration\<lparr>building_mode := EXTRUDED\<rparr>))
       (empty_constructor\<lparr>buildings := [example_building 6 0], heights := [6]\<rparr>)"
proof -
  have h: "building_mode
     (configuration (Map_init example_flinger example_scheme other_mode_configuration))
     \<noteq> FLAT"
    by (simp add: Map_init_def other_mode_configuration_def)
  from C7_no_mode_check [OF h, THEN conjunct2,
      of "empty_constructor\<lparr>buildings := [example_building 6 0], heights := [6]\<rparr>"]
  show ?thesis
    using h by (simp add: Map_init_def other_mode_configuration_def)
qed

subsection \<open>C1: walls and roofs, height by height\<close>

text \<open>
  C1 as stated fails. For the building of height 9 and minimum height 3 and the heights
  \<open>{3, 6, 9}\<close>, \<^verbatim>\<open>draw_walls\<close> is called at the heights 3, 6 and 9: also at 3, and also
  at 9, where the height is not below the height of the building.
\<close>


theorem C1_counterexample:
  "draw_buildings (Map_init example_flinger example_scheme example_configuration)
     example_buildings_constructor [] =
     [SvgAddGroup (1 / 10) [example_building 9 3, example_building 6 0],
      DrawWalls (example_building 9 3) 3 0 1, DrawWalls (example_building 6 0) 3 0 1,
      DrawWalls (example_building 9 3) 6 3 1, DrawWalls (example_building 6 0) 6 3 1,
      DrawRoof (example_building 6 0) 1,
      DrawWalls (example_building 9 3) 9 6 1,
      DrawRoof (example_building 9 3) 1]
   \<and> building_mode example_configuration = EXTRUDED
   \<and> height (example_building 9 3) = 9
   \<and> min_height (example_building 9 3) = 3
   \<and> \<not> 9 < height (example_building 9 3)"
  by (simp add: draw_buildings_eq building_calls_def band_calls_def Map_init_def
      example_flinger_def example_configuration_def example_buildings_constructor_def
      empty_constructor_def example_buildings_def example_building_def)

text \<open>
  C1, amended. When the building mode is not flat, \<^verbatim>\<open>draw_buildings\<close> adds the shade
  group and then, for each height \<open>h\<close> of \<^verbatim>\<open>constructor.heights\<close> in ascending order,
  with \<open>previous_height\<close> the height before it (0 for the first): \<^verbatim>\<open>draw_walls\<close> with
  \<open>h\<close>, \<open>previous_height\<close> and the scale \<^verbatim>\<open>flinger.get_scale() / 3\<close> for exactly the
  buildings with \<open>min_height \<le> h \<le> height\<close> (both bounds included), then \<^verbatim>\<open>draw_roof\<close>
  for exactly the buildings with \<open>height = h\<close>. The building of height 9 and minimum
  height 3 gets walls at 3, 6 and 9 and its roof at 9.
\<close>


theorem C1_bands:
  "building_mode (configuration M) \<noteq> FLAT \<Longrightarrow>
   draw_buildings M c svg =
     svg @ SvgAddGroup (1 / 10) (buildings c) #
     concat (map (\<lambda>(previous_height, h).
         map (\<lambda>b. DrawWalls b h previous_height (get_scale (flinger M) None / 3))
           (filter (\<lambda>b. min_height b \<le> h \<and> h \<le> height b) (buildings c)) @
         map (\<lambda>b. DrawRoof b (get_scale (flinger M) None / 3))
           (filter (\<lambda>b. height b = h) (buildings c)))
       (zip (0 # sort (heights c)) (sort (heights c))))
   \<and> (DrawWalls b h p s \<in> set (draw_buildings M c []) \<longleftrightarrow>
        b \<in> set (buildings c) \<and> (p, h) \<in> set (zip (0 # sort (heights c)) (sort (heights c)))
        \<and> min_height b \<le> h \<and> h \<le> height b \<and> s = get_scale (flinger M) None / 3)
   \<and> (DrawRoof b s \<in> set (draw_buildings M c []) \<longleftrightarrow>
        b \<in> set (buildings c) \<and> height b \<in> set (heights c)
        \<and> s = get_scale (flinger M) None / 3)"
proof -
  assume m: "building_mode (configuration M) \<noteq> FLAT"
  have bc: "band_calls (buildings c) (get_scale (flinger M) None / 3) =
      (\<lambda>(previous_height, h).
         map (\<lambda>b. DrawWalls b h previous_height (get_scale (flinger M) None / 3))
           (filter (\<lambda>b. min_height b \<le> h \<and> h \<le> height b) (buildings c)) @
         map (\<lambda>b. DrawRoof b (get_scale (flinger M) None / 3))
           (filter (\<lambda>b. height b = h) (buildings c)))"
    by (simp add: band_calls_def fun_eq_iff)
  have shape: "draw_buildings M c svg =
     svg @ SvgAddGroup (1 / 10) (buildings c) #
     concat (map (band_calls (buildings c) (get_scale (flinger M) None / 3))
       (zip (0 # sort (heights c)) (sort (heights c))))" for svg
    using m by (simp add: draw_buildings_eq building_calls_def)
  have walls: "DrawWalls b h p s \<in> set (draw_buildings M c []) \<longleftrightarrow>
        b \<in> set (buildings c) \<and> (p, h) \<in> set (zip (0 # sort (heights c)) (sort (heights c)))
        \<and> min_height b \<le> h \<and> h \<le> height b \<and> s = get_scale (flinger M) None / 3"
    unfolding shape by (auto simp: walls_in_band)
  have roofs: "DrawRoof b s \<in> set (draw_buildings M c []) \<longleftrightarrow>
        b \<in> set (buildings c) \<and> height b \<in> set (heights c)
        \<and> s = get_scale (flinger M) None / 3"
    using roof_in_bands [of b s "buildings c" "get_scale (flinger M) None / 3" 0
        "sort (heights c)"]
    unfolding shape by simp
  show ?thesis
    using shape [of svg] walls roofs unfolding bc by blast
qed

theorem C1_bands_witness:
  "building_mode
     (configuration (Map_init example_flinger example_scheme example_configuration)) \<noteq> FLAT
   \<and> draw_buildings (Map_init example_flinger example_scheme example_configuration)
       example_buildings_constructor [] =
     [SvgAddGroup (1 / 10) [example_building 9 3, example_building 6 0],
      DrawWalls (example_building 9 3) 3 0 1, DrawWalls (example_building 6 0) 3 0 1,
      DrawWalls (example_building 9 3) 6 3 1, DrawWalls (example_building 6 0) 6 3 1,
      DrawRoof (example_building 6 0) 1,
      DrawWalls (example_building 9 3) 9 6 1,
      DrawRoof (example_building 9 3) 1]"
proof -
  let ?M = "Map_init example_flinger example_scheme example_configuration"
  have h: "building_mode (configuration ?M) \<noteq> FLAT"
    by (simp add: Map_init_def example_configuration_def)
  have "draw_buildings ?M example_buildings_constructor [] =
     [SvgAddGroup (1 / 10) [example_building 9 3, example_building 6 0],
      DrawWalls (example_building 9 3) 3 0 1, DrawWalls (example_building 6 0) 3 0 1,
      DrawWalls (example_building 9 3) 6 3 1, DrawWalls (example_building 6 0) 6 3 1,
      DrawRoof (example_building 6 0) 1,
      DrawWalls (example_building 9 3) 9 6 1,
      DrawRoof (example_building 9 3) 1]"
    unfolding C1_bands [OF h, THEN conjunct1]
    by (simp add: Map_init_def example_flinger_def example_buildings_constructor_def
        empty_constructor_def example_buildings_def example_building_def)
  with h show ?thesis by (rule conjI)
qed

subsection \<open>C4: the roads, layer by layer, borders before fills\<close>

text \<open>
  C4. After the figures, \<^verbatim>\<open>draw\<close> takes the layers of the roads in ascending order and,
  for each layer, draws the border of every road of the layer (in the order of
  \<^verbatim>\<open>constructor.roads\<close>) and then the fill of every road of the layer. So in the drawing
  every border call of a road comes before every fill call of a road of the same layer,
  and of two road calls the earlier never has the higher layer.
\<close>

theorem C4_layers:
  "draw M c =
     Inr ((SvgAddRect (0, 0) (flinger_size (flinger M)) (background_color M) #
           figure_calls M c) @
          concat (map (\<lambda>l. map border_call (filter (\<lambda>r. layer r = l) (roads c)) @
                            map fill_call (filter (\<lambda>r. layer r = l) (roads c)))
                   (sorted_list_of_set (layer ` set (roads c)))) @
          map TreeDraw (trees c) @ map CraterDraw (craters c) @
          map DirectionSectorDraw (direction_sectors c) @ building_calls M c @
          point_calls M c)
   \<and> (\<forall>tr i j ri rj.
         draw M c = Inr tr \<and> i < length tr \<and> j < length tr \<and>
         tr ! i = border_call ri \<and> tr ! j = fill_call rj \<and> layer ri = layer rj
         \<longrightarrow> i < j)
   \<and> (\<forall>tr i j ri ci xi rj cj xj.
         draw M c = Inr tr \<and> i < j \<and> j < length tr \<and>
         tr ! i = RoadDraw ri ci xi \<and> tr ! j = RoadDraw rj cj xj
         \<longrightarrow> layer ri \<le> layer rj)"
proof (intro conjI allI impI)
  show "draw M c =
     Inr ((SvgAddRect (0, 0) (flinger_size (flinger M)) (background_color M) #
           figure_calls M c) @
          concat (map (\<lambda>l. map border_call (filter (\<lambda>r. layer r = l) (roads c)) @
                            map fill_call (filter (\<lambda>r. layer r = l) (roads c)))
                   (sorted_list_of_set (layer ` set (roads c)))) @
          map TreeDraw (trees c) @ map CraterDraw (craters c) @
          map DirectionSectorDraw (direction_sectors c) @ building_calls M c @
          point_calls M c)"
    by (simp add: draw_eq road_calls_def layer_calls_def [abs_def])
next
  fix tr i j ri rj
  assume a: "draw M c = Inr tr \<and> i < length tr \<and> j < length tr \<and>
         tr ! i = border_call ri \<and> tr ! j = fill_call rj \<and> layer ri = layer rj"
  then have s: "sorted_wrt road_order tr" by (auto intro: draw_road_order)
  show "i < j"
  proof (rule ccontr)
    assume "\<not> i < j"
    then consider "j < i" | "i = j" by fastforce
    then show False
    proof cases
      case 1
      from s 1 a have "road_order (tr ! j) (tr ! i)"
        using sorted_wrt_nth_less [of road_order tr j i] by blast
      with a show False by (simp add: border_call_def fill_call_def)
    next
      case 2
      with a have "border_call ri = fill_call rj" by auto
      then show False by (simp add: border_call_def fill_call_def)
    qed
  qed
next
  fix tr i j ri ci xi rj cj xj
  assume a: "draw M c = Inr tr \<and> i < j \<and> j < length tr \<and>
         tr ! i = RoadDraw ri ci xi \<and> tr ! j = RoadDraw rj cj xj"
  then have s: "sorted_wrt road_order tr" by (auto intro: draw_road_order)
  with a have "road_order (tr ! i) (tr ! j)"
    using sorted_wrt_nth_less [of road_order tr i j] by blast
  with a show "layer ri \<le> layer rj" by auto
qed

theorem C4_layers_witness:
  "draw (Map_init example_flinger example_scheme example_configuration)
     (empty_constructor\<lparr>roads := example_layered_roads\<rparr>) =
     Inr [SvgAddRect (0, 0) (100, 80) ''#EEEEEE'',
          border_call (example_road 0 ''#BBBBBB'' []),
          fill_call (example_road 0 ''#BBBBBB'' []),
          border_call (example_road 1 ''#AAAAAA'' []),
          border_call (example_road 1 ''#CCCCCC'' []),
          fill_call (example_road 1 ''#AAAAAA'' []),
          fill_call (example_road 1 ''#CCCCCC'' []),
          SvgAddGroup (1 / 10) []]
   \<and> layer (example_road 1 ''#CCCCCC'' []) = layer (example_road 1 ''#AAAAAA'' [])
   \<and> (4 :: nat) < 5"
proof -
  let ?M = "Map_init example_flinger example_scheme example_configuration"
  let ?c = "empty_constructor\<lparr>roads := example_layered_roads\<rparr>"
  let ?tr = "[SvgAddRect (0, 0) (100, 80) ''#EEEEEE'',
          border_call (example_road 0 ''#BBBBBB'' []),
          fill_call (example_road 0 ''#BBBBBB'' []),
          border_call (example_road 1 ''#AAAAAA'' []),
          border_call (example_road 1 ''#CCCCCC'' []),
          fill_call (example_road 1 ''#AAAAAA'' []),
          fill_call (example_road 1 ''#CCCCCC'' []),
          SvgAddGroup (1 / 10) []]"
  note t = C4_layers [of ?M ?c]
  have "sorted_list_of_set (set (map layer example_layered_roads)) = [0, 1]"
    unfolding sorted_list_of_set_sort_remdups
    by (simp add: example_layered_roads_def example_road_def)
  then have keys: "sorted_list_of_set (layer ` set example_layered_roads) = [0, 1]"
    by (simp only: set_map)
  have a: "draw ?M ?c = Inr ?tr"
    unfolding t [THEN conjunct1]
    by (simp add: keys empty_constructor_def)
       (simp add: Map_init_def example_flinger_def example_scheme_def
        example_configuration_def example_layered_roads_def example_road_def
        figure_calls_def building_calls_def point_calls_def make_occupied_def)
  have l: "layer (example_road 1 ''#CCCCCC'' []) = layer (example_road 1 ''#AAAAAA'' [])"
    by (simp add: example_road_def)
  have "draw ?M ?c = Inr ?tr \<and> 4 < length ?tr \<and> 5 < length ?tr \<and>
      ?tr ! 4 = border_call (example_road 1 ''#CCCCCC'' []) \<and>
      ?tr ! 5 = fill_call (example_road 1 ''#AAAAAA'' []) \<and>
      layer (example_road 1 ''#CCCCCC'' []) = layer (example_road 1 ''#AAAAAA'' [])"
    using a l by simp
  then have "(4 :: nat) < 5"
    by (rule t [THEN conjunct2, THEN conjunct1, THEN spec, THEN spec, THEN spec, THEN spec,
          THEN spec, THEN mp])
  with a l show ?thesis by blast
qed

subsection \<open>C2: one intersection for every node with four road parts or more\<close>

text \<open>
  C2. When every road has an outer ring, \<^verbatim>\<open>draw_roads\<close> raises no error and goes through
  the nodes of the dictionary, each once, in the order of their first insertion: a node
  whose set holds four road parts or more gets exactly one call
  \<^verbatim>\<open>Intersection(list(parts)).draw(svg, True)\<close>, a node with fewer parts gets none. (A road
  with no outer ring makes \<^verbatim>\<open>road.outers[0]\<close> raise \<^verbatim>\<open>IndexError\<close> before any call.) Three
  roads meeting in a node give no intersection, four give one.
\<close>

theorem C2_intersections:
  "draw_roads so M rs =
     (case collect_parts M rs initial_parts of
        Inl e \<Rightarrow> Inl e
      | Inr st \<Rightarrow>
          Inr (concat (map (\<lambda>item. if 4 \<le> length (snd item)
                                    then [IntersectionDraw (so (snd item)) True] else [])
                        (nodes st))))
   \<and> (collect_parts M rs initial_parts = Inr st \<longrightarrow> distinct (map fst (nodes st)))
   \<and> ((\<exists>st'. collect_parts M rs initial_parts = Inr st') \<longleftrightarrow>
        (\<forall>road \<in> set rs. outers road \<noteq> []))"
proof (intro conjI impI)
  show "draw_roads so M rs =
     (case collect_parts M rs initial_parts of
        Inl e \<Rightarrow> Inl e
      | Inr st \<Rightarrow>
          Inr (concat (map (\<lambda>item. if 4 \<le> length (snd item)
                                    then [IntersectionDraw (so (snd item)) True] else [])
                        (nodes st))))"
    by (rule draw_roads_eq)
next
  assume "collect_parts M rs initial_parts = Inr st"
  then have "parts_state_ok st" using initial_parts_ok by (rule collect_parts_ok)
  then show "distinct (map fst (nodes st))" by (simp add: parts_state_ok_def)
next
  show "(\<exists>st'. collect_parts M rs initial_parts = Inr st') \<longleftrightarrow>
        (\<forall>road \<in> set rs. outers road \<noteq> [])"
    by (rule collect_parts_Inr)
qed

theorem C2_intersections_witness:
  "draw_roads (\<lambda>parts. parts)
     (Map_init example_flinger example_scheme example_configuration)
     (star_roads [1, 2, 3]) = Inr []
   \<and> draw_roads (\<lambda>parts. parts)
     (Map_init example_flinger example_scheme example_configuration)
     (star_roads [1, 2, 3, 4]) =
     Inr [IntersectionDraw
            [example_part 0 0 1, example_part 2 0 2, example_part 4 0 3, example_part 6 0 4]
            True]"
proof -
  let ?M = "Map_init example_flinger example_scheme example_configuration"
  have a: "draw_roads (\<lambda>parts. parts) ?M (star_roads [1, 2, 3]) = Inr []"
    unfolding C2_intersections [of "\<lambda>parts. parts" ?M "star_roads [1, 2, 3]", THEN conjunct1]
    by (simp add: star_3)
  have b: "draw_roads (\<lambda>parts. parts) ?M (star_roads [1, 2, 3, 4]) =
     Inr [IntersectionDraw
            [example_part 0 0 1, example_part 2 0 2, example_part 4 0 3, example_part 6 0 4]
            True]"
    unfolding C2_intersections [of "\<lambda>parts. parts" ?M "star_roads [1, 2, 3, 4]", THEN conjunct1]
    by (simp add: star_4)
  from a b show ?thesis by (rule conjI)
qed

subsection \<open>C9: two road parts for a segment, one for each of its ends\<close>

text \<open>
  C9 as stated fails where a ring names the same node twice in a row: the segment from
  the node to itself is one pair of consecutive nodes, and the set of its one endpoint
  node receives both road parts, not exactly one.
\<close>

theorem C9_counterexample:
  "collect_parts (Map_init example_flinger example_scheme example_configuration)
     [example_road 0 ''#AAAAAA'' [[example_node 5, example_node 5]]] initial_parts =
   Inr \<lparr>nodes = [(example_node 5, [example_part 0 5 5, example_part 1 5 5])],
        next_id = 2\<rparr>
   \<and> length [example_node 5, example_node 5] - 1 = 1"
  by (simp add: add_segment_def Let_def initial_parts_def dict_setdefault_def set_add_def
      example_part_def Map_init_def example_flinger_def example_road_def example_node_def)

text \<open>
  C9, amended. For every pair of consecutive nodes of \<^verbatim>\<open>road.outers[0]\<close> the loop
  constructs exactly two road parts, and the set of a node gains one road part for each
  end of the segment that is this node: the set of the first node gains the part running
  from the first node to the second, the set of the second node the part running back
  (so the set of a node that is both ends gains both). No other set changes, and no part
  is lost to the set: the new objects are in no set yet. So after the loop over the
  roads the number of road parts created is twice the number of segments, the set of a
  node holds as many road parts as there are segment ends at this node, and each of
  them starts at the projection of the node.
\<close>

theorem C9_road_parts:
  "(parts_state_ok st \<longrightarrow>
      next_id (add_segment M road ring index st) = next_id st + 2 \<and>
      parts_of (nodes (add_segment M road ring index st)) n =
        parts_of (nodes st) n @
        (if n = ring ! index
         then [\<lparr>part_id = next_id st,
                 point_1 = fling (flinger M) (coordinates (ring ! index)),
                 point_2 = fling (flinger M) (coordinates (ring ! (index + 1))),
                 part_lanes = lanes road,
                 part_scale = get_scale (flinger M) (Some (coordinates (ring ! index)))\<rparr>]
         else []) @
        (if n = ring ! (index + 1)
         then [\<lparr>part_id = next_id st + 1,
                 point_1 = fling (flinger M) (coordinates (ring ! (index + 1))),
                 point_2 = fling (flinger M) (coordinates (ring ! index)),
                 part_lanes = lanes road,
                 part_scale = get_scale (flinger M) (Some (coordinates (ring ! index)))\<rparr>]
         else []))
   \<and> (collect_parts M rs initial_parts = Inr st' \<longrightarrow>
        parts_state_ok st' \<and>
        next_id st' = 2 * sum_list (map road_segments rs) \<and>
        length (parts_of (nodes st') n) = sum_list (map (\<lambda>road. segment_ends road n) rs) \<and>
        (\<forall>p \<in> set (parts_of (nodes st') n).
           point_1 p = fling (flinger M) (coordinates n)))"
proof (intro conjI impI)
  assume ok: "parts_state_ok st"
  show "next_id (add_segment M road ring index st) = next_id st + 2"
    by (rule add_segment_next_id)
  from add_segment_parts [OF ok, of M road ring index n]
  show "parts_of (nodes (add_segment M road ring index st)) n =
        parts_of (nodes st) n @
        (if n = ring ! index
         then [\<lparr>part_id = next_id st,
                 point_1 = fling (flinger M) (coordinates (ring ! index)),
                 point_2 = fling (flinger M) (coordinates (ring ! (index + 1))),
                 part_lanes = lanes road,
                 part_scale = get_scale (flinger M) (Some (coordinates (ring ! index)))\<rparr>]
         else []) @
        (if n = ring ! (index + 1)
         then [\<lparr>part_id = next_id st + 1,
                 point_1 = fling (flinger M) (coordinates (ring ! (index + 1))),
                 point_2 = fling (flinger M) (coordinates (ring ! index)),
                 part_lanes = lanes road,
                 part_scale = get_scale (flinger M) (Some (coordinates (ring ! index)))\<rparr>]
         else [])"
    by (simp add: new_part_1_def new_part_2_def)
next
  assume c: "collect_parts M rs initial_parts = Inr st'"
  show "parts_state_ok st'"
    using c initial_parts_ok by (rule collect_parts_ok)
  show "next_id st' = 2 * sum_list (map road_segments rs)"
    using collect_parts_next_id [OF c] by (simp add: initial_parts_def)
  show "length (parts_of (nodes st') n) = sum_list (map (\<lambda>road. segment_ends road n) rs)"
    using collect_parts_length [OF c initial_parts_ok, of n]
    by (simp add: initial_parts_def parts_of_def)
  have "parts_directed M st'"
    using c initial_parts_ok
    by (rule collect_parts_directed) (simp add: parts_directed_def initial_parts_def)
  then show "\<forall>p \<in> set (parts_of (nodes st') n).
           point_1 p = fling (flinger M) (coordinates n)"
    by (auto simp: parts_directed_def dest!: parts_of_in_items)
qed

theorem C9_road_parts_witness:
  "parts_state_ok initial_parts
   \<and> parts_of (nodes (add_segment
          (Map_init example_flinger example_scheme example_configuration)
          (example_road 0 ''#AAAAAA'' [[example_node 0, example_node 1]])
          [example_node 0, example_node 1] 0 initial_parts)) (example_node 0) =
       [example_part 0 0 1]
   \<and> parts_of (nodes (add_segment
          (Map_init example_flinger example_scheme example_configuration)
          (example_road 0 ''#AAAAAA'' [[example_node 0, example_node 1]])
          [example_node 0, example_node 1] 0 initial_parts)) (example_node 1) =
       [example_part 1 1 0]
   \<and> parts_of (nodes (add_segment
          (Map_init example_flinger example_scheme example_configuration)
          (example_road 0 ''#AAAAAA'' [[example_node 5, example_node 5]])
          [example_node 5, example_node 5] 0 initial_parts)) (example_node 5) =
       [example_part 0 5 5, example_part 1 5 5]
   \<and> (\<exists>st. collect_parts (Map_init example_flinger example_scheme example_configuration)
              (star_roads [1, 2, 3, 4]) initial_parts = Inr st
          \<and> next_id st = 8
          \<and> length (parts_of (nodes st) (example_node 0)) = 4
          \<and> length (parts_of (nodes st) (example_node 3)) = 1)"
proof -
  let ?M = "Map_init example_flinger example_scheme example_configuration"
  have ok: "parts_state_ok initial_parts" by (rule initial_parts_ok)
  have e: "parts_of (nodes initial_parts) n = []" for n
    by (simp add: parts_of_def initial_parts_def)
  note step = C9_road_parts [THEN conjunct1, THEN mp, OF ok, THEN conjunct2]
  have a: "parts_of (nodes (add_segment ?M
          (example_road 0 ''#AAAAAA'' [[example_node 0, example_node 1]])
          [example_node 0, example_node 1] 0 initial_parts)) (example_node 0) =
       [example_part 0 0 1]"
    unfolding step
    by (simp add: e example_part_def Map_init_def example_flinger_def example_road_def)
       (simp add: example_node_def initial_parts_def)
  have b: "parts_of (nodes (add_segment ?M
          (example_road 0 ''#AAAAAA'' [[example_node 0, example_node 1]])
          [example_node 0, example_node 1] 0 initial_parts)) (example_node 1) =
       [example_part 1 1 0]"
    unfolding step
    by (simp add: e example_part_def Map_init_def example_flinger_def example_road_def)
       (simp add: example_node_def initial_parts_def)
  have c: "parts_of (nodes (add_segment ?M
          (example_road 0 ''#AAAAAA'' [[example_node 5, example_node 5]])
          [example_node 5, example_node 5] 0 initial_parts)) (example_node 5) =
       [example_part 0 5 5, example_part 1 5 5]"
    unfolding step
    by (simp add: e example_part_def Map_init_def example_flinger_def example_road_def)
       (simp add: example_node_def initial_parts_def)
  note all = C9_road_parts [THEN conjunct2, THEN mp, OF star_4]
  have ends: "segment_ends (example_road 0 col [[example_node 0, example_node k]]) n =
      (if n = example_node 0 then 1 else 0) + (if n = example_node k then 1 else 0)" for col k n
    by (auto simp: segment_ends_def example_road_def)
  have segs: "road_segments (example_road 0 col [[a, b]]) = 1" for col a b
    by (simp add: road_segments_def example_road_def)
  have d: "\<exists>st. collect_parts ?M (star_roads [1, 2, 3, 4]) initial_parts = Inr st
          \<and> next_id st = 8
          \<and> length (parts_of (nodes st) (example_node 0)) = 4
          \<and> length (parts_of (nodes st) (example_node 3)) = 1"
    using all [of "example_node 0"] all [of "example_node 3"] star_4
    by (simp add: star_roads_def ends segs)
  from ok a b c d show ?thesis by blast
qed

subsection \<open>C10: only the first outer ring of a road is read\<close>

text \<open>
  C10. \<^verbatim>\<open>draw_roads\<close> reads of a road only \<^verbatim>\<open>outers[0]\<close> and \<^verbatim>\<open>lanes\<close>: two lists of
  roads that agree, road by road, on the first outer ring (or on having none) and on
  the lanes give the same result, whatever their other outer rings and their inner
  rings are. A node that is on the first outer ring of no road is no key of the
  dictionary, has no road part and gets no intersection.
\<close>


theorem C10_first_ring:
  "(map (\<lambda>road. (take 1 (outers road), lanes road)) rs =
    map (\<lambda>road. (take 1 (outers road), lanes road)) rs'
    \<longrightarrow> draw_roads so M rs = draw_roads so M rs')
   \<and> (collect_parts M rs initial_parts = Inr st \<and>
       (\<forall>road \<in> set rs. \<forall>ring \<in> set (take 1 (outers road)). n \<notin> set ring)
       \<longrightarrow> n \<notin> fst ` set (nodes st) \<and> parts_of (nodes st) n = [])"
proof (intro conjI impI)
  assume "map (\<lambda>road. (take 1 (outers road), lanes road)) rs =
    map (\<lambda>road. (take 1 (outers road), lanes road)) rs'"
  then have "collect_parts M rs initial_parts = collect_parts M rs' initial_parts"
    by (rule collect_parts_cong)
  then show "draw_roads so M rs = draw_roads so M rs'"
    by (simp add: draw_roads_def)
next
  assume a: "collect_parts M rs initial_parts = Inr st \<and>
       (\<forall>road \<in> set rs. \<forall>ring \<in> set (take 1 (outers road)). n \<notin> set ring)"
  with collect_parts_keys [of M rs initial_parts st]
  show k: "n \<notin> fst ` set (nodes st)"
    by (auto simp: initial_parts_def)
  then show "parts_of (nodes st) n = []"
    by (simp add: parts_of_def map_of_eq_None_iff [THEN iffD2])
qed

theorem C10_first_ring_witness:
  "draw_roads (\<lambda>parts. parts)
      (Map_init example_flinger example_scheme example_configuration)
      (ringed_road # star_roads [2, 3, 4]) =
   draw_roads (\<lambda>parts. parts)
      (Map_init example_flinger example_scheme example_configuration)
      (star_roads [1, 2, 3, 4])
   \<and> (\<exists>st. collect_parts (Map_init example_flinger example_scheme example_configuration)
             (ringed_road # star_roads [2, 3, 4]) initial_parts = Inr st
          \<and> example_node 7 \<notin> fst ` set (nodes st)
          \<and> parts_of (nodes st) (example_node 7) = [])"
proof -
  let ?M = "Map_init example_flinger example_scheme example_configuration"
  have m: "map (\<lambda>road. (take 1 (outers road), lanes road)) (ringed_road # star_roads [2, 3, 4]) =
      map (\<lambda>road. (take 1 (outers road), lanes road)) (star_roads [1, 2, 3, 4])"
    by (simp add: ringed_road_def star_roads_def example_road_def)
  have a: "draw_roads (\<lambda>parts. parts) ?M (ringed_road # star_roads [2, 3, 4]) =
      draw_roads (\<lambda>parts. parts) ?M (star_roads [1, 2, 3, 4])"
    using m by (rule C10_first_ring [THEN conjunct1, THEN mp])
  from m have "collect_parts ?M (ringed_road # star_roads [2, 3, 4]) initial_parts =
      collect_parts ?M (star_roads [1, 2, 3, 4]) initial_parts"
    by (rule collect_parts_cong)
  then have c: "collect_parts ?M (ringed_road # star_roads [2, 3, 4]) initial_parts =
     Inr \<lparr>nodes =
          [(example_node 0, [example_part 0 0 1, example_part 2 0 2, example_part 4 0 3,
                             example_part 6 0 4]),
           (example_node 1, [example_part 1 1 0]),
           (example_node 2, [example_part 3 2 0]),
           (example_node 3, [example_part 5 3 0]),
           (example_node 4, [example_part 7 4 0])],
        next_id = 8\<rparr>" (is "_ = Inr ?st")
    by (simp only: star_4)
  have h: "\<forall>road \<in> set (ringed_road # star_roads [2, 3, 4]).
      \<forall>ring \<in> set (take 1 (outers road)). example_node 7 \<notin> set ring"
    by (simp add: ringed_road_def star_roads_def example_road_def)
  from C10_first_ring [THEN conjunct2, THEN mp, OF conjI, OF c h]
  have "example_node 7 \<notin> fst ` set (nodes ?st) \<and> parts_of (nodes ?st) (example_node 7) = []" .
  with c have "\<exists>st. collect_parts ?M (ringed_road # star_roads [2, 3, 4]) initial_parts = Inr st
          \<and> example_node 7 \<notin> fst ` set (nodes st)
          \<and> parts_of (nodes st) (example_node 7) = []"
    by blast
  with a show ?thesis by (rule conjI)
qed

subsection \<open>C6: what the drawing depends on\<close>

text \<open>
  C6 as stated fails for \<^verbatim>\<open>draw_roads\<close>. The list handed to \<^verbatim>\<open>Intersection\<close> is
  \<^verbatim>\<open>list(parts)\<close> for a set of objects held by identity, and the order of that list is
  the order in which the set iterates. For four roads meeting in a node, two orders of
  iteration give two different calls on the same roads and the same configuration.
\<close>


theorem C6_counterexample:
  "draw_roads (\<lambda>parts. parts)
      (Map_init example_flinger example_scheme example_configuration)
      (star_roads [1, 2, 3, 4]) =
     Inr [IntersectionDraw
            [example_part 0 0 1, example_part 2 0 2, example_part 4 0 3, example_part 6 0 4]
            True]
   \<and> draw_roads rev
      (Map_init example_flinger example_scheme example_configuration)
      (star_roads [1, 2, 3, 4]) =
     Inr [IntersectionDraw
            [example_part 6 0 4, example_part 4 0 3, example_part 2 0 2, example_part 0 0 1]
            True]
   \<and> draw_roads (\<lambda>parts. parts)
      (Map_init example_flinger example_scheme example_configuration)
      (star_roads [1, 2, 3, 4]) \<noteq>
     draw_roads rev
      (Map_init example_flinger example_scheme example_configuration)
      (star_roads [1, 2, 3, 4])"
  by (simp add: draw_roads_eq star_4 example_part_def)

text \<open>
  C6, amended. \<^verbatim>\<open>draw\<close> is a function of the entities and the configuration, and the
  order in which the set \<^verbatim>\<open>constructor.heights\<close> iterates does not matter to it, since it
  sorts the heights. \<^verbatim>\<open>draw_roads\<close> raises the same error or emits an intersection for
  the same nodes in the same order (the order of first insertion into the dictionary),
  whatever the order in which the sets of road parts iterate, and each intersection is
  built from the same road parts; only the order of the list handed to \<^verbatim>\<open>Intersection\<close>
  is that of the iteration.
\<close>


theorem C6_iteration_order:
  "((\<forall>ps. mset (so ps) = mset ps) \<and> (\<forall>ps. mset (so' ps) = mset ps) \<longrightarrow>
      rel_sum (=)
        (list_all2 (\<lambda>a b. \<exists>ps qs. a = IntersectionDraw ps True \<and>
                                   b = IntersectionDraw qs True \<and> mset ps = mset qs))
        (draw_roads so M rs) (draw_roads so' M rs))
   \<and> (set hs = set hs' \<and> distinct hs \<and> distinct hs' \<longrightarrow>
        draw M (c\<lparr>heights := hs\<rparr>) = draw M (c\<lparr>heights := hs'\<rparr>))"
proof (intro conjI impI)
  assume p: "(\<forall>ps. mset (so ps) = mset ps) \<and> (\<forall>ps. mset (so' ps) = mset ps)"
  show "rel_sum (=)
        (list_all2 (\<lambda>a b. \<exists>ps qs. a = IntersectionDraw ps True \<and>
                                   b = IntersectionDraw qs True \<and> mset ps = mset qs))
        (draw_roads so M rs) (draw_roads so' M rs)"
  proof (cases "collect_parts M rs initial_parts")
    case (Inl e)
    then show ?thesis by (simp add: draw_roads_eq)
  next
    case (Inr st)
    have "list_all2 (\<lambda>a b. \<exists>ps qs. a = IntersectionDraw ps True \<and>
                                   b = IntersectionDraw qs True \<and> mset ps = mset qs)
        (concat (map (\<lambda>item. if 4 \<le> length (snd item)
                              then [IntersectionDraw (so (snd item)) True] else [])
                  (nodes st)))
        (concat (map (\<lambda>item. if 4 \<le> length (snd item)
                              then [IntersectionDraw (so' (snd item)) True] else [])
                  (nodes st)))"
      by (rule list_all2_concat_map) (use p in simp)
    with Inr show ?thesis by (simp add: draw_roads_eq)
  qed
next
  assume "set hs = set hs' \<and> distinct hs \<and> distinct hs'"
  then have "sort hs = sort hs'" by (auto intro: sort_set_unique)
  then show "draw M (c\<lparr>heights := hs\<rparr>) = draw M (c\<lparr>heights := hs'\<rparr>)"
    by (simp add: draw_eq figure_calls_def building_calls_def point_calls_def)
qed

theorem C6_iteration_order_witness:
  "rel_sum (=)
     (list_all2 (\<lambda>a b. \<exists>ps qs. a = IntersectionDraw ps True \<and>
                                b = IntersectionDraw qs True \<and> mset ps = mset qs))
     (draw_roads (\<lambda>parts. parts)
        (Map_init example_flinger example_scheme example_configuration)
        (star_roads [1, 2, 3, 4]))
     (draw_roads rev
        (Map_init example_flinger example_scheme example_configuration)
        (star_roads [1, 2, 3, 4]))
   \<and> draw (Map_init example_flinger example_scheme example_configuration)
        (example_buildings_constructor\<lparr>heights := [9, 3, 6]\<rparr>) =
     draw (Map_init example_flinger example_scheme example_configuration)
        (example_buildings_constructor\<lparr>heights := [3, 6, 9]\<rparr>)"
proof -
  have p: "(\<forall>ps :: RoadPart list. mset ((\<lambda>parts. parts) ps) = mset ps) \<and>
      (\<forall>ps :: RoadPart list. mset (rev ps) = mset ps)"
    by simp
  have h: "set [9, 3, 6 :: real] = set [3, 6, 9] \<and> distinct [9, 3, 6 :: real] \<and>
      distinct [3, 6, 9 :: real]"
    by auto
  from C6_iteration_order [THEN conjunct1, THEN mp, OF p]
    C6_iteration_order [THEN conjunct2, THEN mp, OF h]
  show ?thesis by blast
qed

end
